theory Spec2Isabelle
  imports Complex_Main
begin

section \<open>Calorie and macro tracker: the resolution and logging pipeline\<close>

text \<open>
  A shallow embedding of \<^verbatim>\<open>src/src/mtracker/main.py\<close>, \<^verbatim>\<open>src/src/mtracker/cache.py\<close>,
  \<^verbatim>\<open>src/history.py\<close> and \<^verbatim>\<open>src/main.py\<close>.

  Conventions of the model.
  \<^item> A \<open>string\<close> is a Python \<^verbatim>\<open>str\<close> over the code points below 256: one \<open>char\<close> is one
    code point.
  \<^item> Python numbers (int and float) and the REAL columns of SQLite are idealised as
    \<open>real\<close>: no rounding, no infinities.
  \<^item> The two SQLite files are one \<open>state\<close> record: the tables \<^verbatim>\<open>food_log\<close> and
    \<^verbatim>\<open>daily_summary\<close> of \<^verbatim>\<open>food_log.db\<close> and the table \<^verbatim>\<open>cache\<close> of \<^verbatim>\<open>food_cache.db\<close>.
    Storage failures (a file that cannot be opened or written) are outside the model.
  \<^item> Every call of \<^verbatim>\<open>datetime.datetime.now()\<close> is a parameter of the function that makes it,
    every call of \<^verbatim>\<open>input()\<close> likewise, and the language model behind \<^verbatim>\<open>chain.invoke\<close> and
    the library function \<^verbatim>\<open>json.loads\<close> are parameters too.
  \<^item> Printing is modelled by the value a function returns beside the new state.
\<close>

subsection \<open>Strings: the methods of \<^verbatim>\<open>str\<close> the code uses\<close>

text \<open>\<^verbatim>\<open>sep in s\<close>: \<open>sep\<close> occurs in \<open>s\<close> as a substring.\<close>

fun str_contains :: "string \<Rightarrow> string \<Rightarrow> bool" where
  "str_contains sep [] = (sep = [])"
| "str_contains sep (c # cs) = (take (length sep) (c # cs) = sep \<or> str_contains sep cs)"

text \<open>
  \<^verbatim>\<open>s.split(sep)\<close> for a non-empty \<open>sep\<close>: the text is scanned from the left, every occurrence
  of \<open>sep\<close> found ends a piece and the scan goes on behind it. \<open>split_scan sep skip acc s\<close>
  reads \<open>s\<close> with \<open>skip\<close> characters of a separator just found still to pass over and
  \<open>acc\<close> the reversed piece read so far.
\<close>

fun split_scan :: "string \<Rightarrow> nat \<Rightarrow> string \<Rightarrow> string \<Rightarrow> string list" where
  "split_scan sep skip acc [] = [rev acc]"
| "split_scan sep skip acc (c # cs) =
     (if 0 < skip then split_scan sep (skip - 1) acc cs
      else if take (length sep) (c # cs) = sep
        then rev acc # split_scan sep (length sep - 1) [] cs
      else split_scan sep 0 (c # acc) cs)"

definition split :: "string \<Rightarrow> string \<Rightarrow> string list" where
  "split s sep = split_scan sep 0 [] s"

text \<open>
  \<^verbatim>\<open>str.isspace\<close> on one code point below 256: tab, line feed, vertical tab, form feed,
  carriage return, the separators 0x1C to 0x1F, space, next line (0x85) and no-break
  space (0xA0).
\<close>

definition isspace :: "char \<Rightarrow> bool" where
  "isspace c = (of_char c \<in> {9, 10, 11, 12, 13, 28, 29, 30, 31, 32, 133, 160 :: nat})"

text \<open>\<^verbatim>\<open>s.strip()\<close>: white space removed at both ends.\<close>

definition strip :: "string \<Rightarrow> string" where
  "strip s = rev (dropWhile isspace (rev (dropWhile isspace s)))"

text \<open>
  \<^verbatim>\<open>s.lower()\<close> on code points below 256: the letters A to Z and the capital letters
  0xC0 to 0xDE of Latin-1 (the multiplication sign 0xD7 apart) move up by 32.
\<close>

definition lower_char :: "char \<Rightarrow> char" where
  "lower_char c =
     (let n = (of_char c :: nat)
      in if (65 \<le> n \<and> n \<le> 90) \<or> (192 \<le> n \<and> n \<le> 222 \<and> n \<noteq> 215)
         then char_of (n + 32) else c)"

definition lower :: "string \<Rightarrow> string" where
  "lower s = map lower_char s"

text \<open>
  The order SQLite's default collation (BINARY) puts on TEXT values: the first
  character that differs decides, and a proper prefix comes first.
\<close>

fun text_less :: "string \<Rightarrow> string \<Rightarrow> bool" where
  "text_less [] [] = False"
| "text_less [] (y # ys) = True"
| "text_less (x # xs) [] = False"
| "text_less (x # xs) (y # ys) =
     ((of_char x :: nat) < of_char y \<or> (x = y \<and> text_less xs ys))"

definition text_le :: "string \<Rightarrow> string \<Rightarrow> bool" where
  "text_le a b = (a = b \<or> text_less a b)"

subsection \<open>Dates: \<^verbatim>\<open>datetime.date\<close> and \<^verbatim>\<open>datetime.datetime\<close>\<close>

text \<open>
  A \<^verbatim>\<open>datetime\<close> is a \<^verbatim>\<open>date\<close> with a time of day, as in Python, where the class
  \<^verbatim>\<open>datetime\<close> extends the class \<^verbatim>\<open>date\<close>.
\<close>

record date =
  year :: nat
  month :: nat
  day :: nat

record datetime = date +
  hour :: nat
  minute :: nat
  second :: nat
  microsecond :: nat

definition is_leap :: "nat \<Rightarrow> bool" where
  "is_leap y = (y mod 4 = 0 \<and> (y mod 100 \<noteq> 0 \<or> y mod 400 = 0))"

definition days_in_month :: "nat \<Rightarrow> nat \<Rightarrow> nat" where
  "days_in_month y m =
     (if m = 2 then (if is_leap y then 29 else 28)
      else if m \<in> {4, 6, 9, 11} then 30 else 31)"

text \<open>The dates the constructor \<^verbatim>\<open>date(y, m, d)\<close> accepts; any other raises ValueError.\<close>

definition valid_date :: "nat \<Rightarrow> nat \<Rightarrow> nat \<Rightarrow> bool" where
  "valid_date y m d =
     (1 \<le> y \<and> y \<le> 9999 \<and> 1 \<le> m \<and> m \<le> 12 \<and> 1 \<le> d \<and> d \<le> days_in_month y m)"

definition digit_char :: "nat \<Rightarrow> char" where
  "digit_char n = ''0123456789'' ! (n mod 10)"

definition pad2 :: "nat \<Rightarrow> string" where
  "pad2 n = [digit_char (n div 10), digit_char n]"

definition pad4 :: "nat \<Rightarrow> string" where
  "pad4 n = [digit_char (n div 1000), digit_char (n div 100), digit_char (n div 10), digit_char n]"

definition pad6 :: "nat \<Rightarrow> string" where
  "pad6 n = [digit_char (n div 100000), digit_char (n div 10000), digit_char (n div 1000),
             digit_char (n div 100), digit_char (n div 10), digit_char n]"

text \<open>
  \<^verbatim>\<open>date.isoformat()\<close>, which is also what \<^verbatim>\<open>strftime("%Y-%m-%d")\<close> gives for the years
  1000 to 9999: \<^verbatim>\<open>YYYY-MM-DD\<close>.
\<close>

definition date_isoformat :: "'a date_scheme \<Rightarrow> string" where
  "date_isoformat d = pad4 (year d) @ ''-'' @ pad2 (month d) @ ''-'' @ pad2 (day d)"

text \<open>
  \<^verbatim>\<open>datetime.isoformat()\<close>: \<^verbatim>\<open>YYYY-MM-DDTHH:MM:SS\<close>, followed by \<^verbatim>\<open>.ffffff\<close> when the
  microsecond is not zero.
\<close>

definition isoformat :: "datetime \<Rightarrow> string" where
  "isoformat t =
     date_isoformat t @ ''T'' @ pad2 (hour t) @ '':'' @ pad2 (minute t) @ '':'' @ pad2 (second t)
       @ (if microsecond t = 0 then [] else ''.'' @ pad6 (microsecond t))"

text \<open>\<^verbatim>\<open>datetime.combine(d, time.min)\<close> and \<^verbatim>\<open>datetime.combine(d, time.max)\<close>.\<close>

definition combine_min :: "date \<Rightarrow> datetime" where
  "combine_min d = date.extend d (datetime.fields 0 0 0 0)"

definition combine_max :: "date \<Rightarrow> datetime" where
  "combine_max d = date.extend d (datetime.fields 23 59 59 999999)"

text \<open>
  \<^verbatim>\<open>t + timedelta(days=1)\<close>, the time of day kept. Python raises OverflowError past
  \<^verbatim>\<open>9999-12-31\<close>: that is \<open>None\<close>.
\<close>

definition add_one_day :: "datetime \<Rightarrow> datetime option" where
  "add_one_day t =
     (if day t < days_in_month (year t) (month t) then Some (t\<lparr>day := day t + 1\<rparr>)
      else if month t < 12 then Some (t\<lparr>month := month t + 1, day := 1\<rparr>)
      else if year t < 9999 then Some (t\<lparr>year := year t + 1, month := 1, day := 1\<rparr>)
      else None)"

text \<open>
  \<^verbatim>\<open>datetime.strptime(date_str, "%Y-%m-%d").date()\<close>. The format is the regular expression
  \<^verbatim>\<open>(\d\d\d\d)-(1[0-2]|0[1-9]|[1-9])-(3[01]|[12]\d|0[1-9]|[1-9]| [1-9])\<close>, which has to
  match the whole string, and the three numbers have to be a date. \<open>None\<close> is the
  ValueError of every other string.
\<close>

definition digit_value :: "char \<Rightarrow> nat option" where
  "digit_value c = map_of (zip ''0123456789'' [0, 1, 2, 3, 4, 5, 6, 7, 8, 9]) c"

definition parse_year :: "string \<Rightarrow> nat option" where
  "parse_year s =
     (case map digit_value s of
        [Some a, Some b, Some c, Some d] \<Rightarrow> Some (1000 * a + 100 * b + 10 * c + d)
      | _ \<Rightarrow> None)"

definition parse_month :: "string \<Rightarrow> nat option" where
  "parse_month s =
     (case map digit_value s of
        [Some a] \<Rightarrow> if 1 \<le> a then Some a else None
      | [Some a, Some b] \<Rightarrow> if 1 \<le> 10 * a + b \<and> 10 * a + b \<le> 12 then Some (10 * a + b) else None
      | _ \<Rightarrow> None)"

definition parse_day :: "string \<Rightarrow> nat option" where
  "parse_day s =
     (case map digit_value (if take 1 s = '' '' then drop 1 s else s) of
        [Some a] \<Rightarrow> if 1 \<le> a then Some a else None
      | [Some a, Some b] \<Rightarrow>
          if take 1 s \<noteq> '' '' \<and> 1 \<le> 10 * a + b \<and> 10 * a + b \<le> 31 then Some (10 * a + b) else None
      | _ \<Rightarrow> None)"

definition strptime_ymd :: "string \<Rightarrow> date option" where
  "strptime_ymd s =
     (let ys = take 4 s; r1 = drop 4 s;
          ms = takeWhile (\<lambda>c. c \<noteq> CHR ''-'') (drop 1 r1);
          r2 = dropWhile (\<lambda>c. c \<noteq> CHR ''-'') (drop 1 r1)
      in if take 1 r1 = ''-'' \<and> take 1 r2 = ''-''
         then (case (parse_year ys, parse_month ms, parse_day (drop 1 r2)) of
                 (Some y, Some m, Some d) \<Rightarrow>
                   if valid_date y m d then Some \<lparr>year = y, month = m, day = d\<rparr> else None
               | _ \<Rightarrow> None)
         else None)"

subsection \<open>The data model\<close>

text \<open>
  A value that \<^verbatim>\<open>json.loads\<close> returns: \<^verbatim>\<open>None\<close>, a \<^verbatim>\<open>bool\<close>, a number, a \<^verbatim>\<open>str\<close>, a
  \<^verbatim>\<open>list\<close> or a \<^verbatim>\<open>dict\<close>.
\<close>

datatype json =
    JNull
  | JBool bool
  | JNumber real
  | JString string
  | JArray "json list"
  | JObject "(string \<times> json) list"

text \<open>
  The operand of the division \<^verbatim>\<open>quantity / 100.0\<close> and of the products with the
  multiplier, which is a \<^verbatim>\<open>float\<close>: a number is taken as it is and a \<^verbatim>\<open>bool\<close> as 1 or 0;
  with every other value Python raises TypeError, which is \<open>None\<close>.
\<close>

fun as_number :: "json \<Rightarrow> real option" where
  "as_number (JNumber x) = Some x"
| "as_number (JBool b) = Some (if b then 1 else 0)"
| "as_number JNull = None"
| "as_number (JString s) = None"
| "as_number (JArray xs) = None"
| "as_number (JObject kvs) = None"

text \<open>
  The dictionary \<^verbatim>\<open>nutrition_per_100g\<close>, with the keys \<^verbatim>\<open>calories\<close>, \<^verbatim>\<open>protein\<close>,
  \<^verbatim>\<open>carbs\<close> and \<^verbatim>\<open>fat\<close>: with the values as the reply or the cache gave them it is a
  \<open>json nutrition\<close>, with its values as numbers a \<open>real nutrition\<close>. The dictionary
  \<^verbatim>\<open>calculated_nutrition\<close> has these keys, with the products as values, and
  \<^verbatim>\<open>food_item\<close>, \<^verbatim>\<open>quantity\<close> and \<^verbatim>\<open>quantity_unit\<close>. A row of the table \<^verbatim>\<open>food_log\<close> has
  the columns of \<^verbatim>\<open>calculated_nutrition\<close> and \<^verbatim>\<open>id\<close> and \<^verbatim>\<open>timestamp\<close>. The timestamp is
  the TEXT that SQLite stores.
\<close>

record 'v nutrition =
  calories :: 'v
  protein :: 'v
  carbs :: 'v
  fat :: 'v

record calculated_nutrition = "real nutrition" +
  food_item :: string
  quantity :: real
  quantity_unit :: string

record food_log_row = calculated_nutrition +
  row_id :: nat
  timestamp :: string

text \<open>
  The four values of a profile as numbers, when all of them are.
\<close>

definition as_numbers :: "json nutrition \<Rightarrow> real nutrition option" where
  "as_numbers n =
     (case (as_number (calories n), as_number (protein n), as_number (carbs n),
            as_number (fat n)) of
        (Some c, Some p, Some cb, Some f) \<Rightarrow>
          Some \<lparr>calories = c, protein = p, carbs = cb, fat = f\<rparr>
      | _ \<Rightarrow> None)"

text \<open>
  The dictionary \<^verbatim>\<open>response_data\<close> that \<^verbatim>\<open>json.loads\<close> returns for a JSON object,
  restricted to the seven keys the code reads: \<open>None\<close> is a key that is absent. The
  quantity and the four values per 100 g are any JSON value. The two labels are strings:
  they are bound as parameters of SQL statements, and what SQLite makes of a label of
  another type is outside the model.
\<close>

record response_data =
  rd_food_item :: "string option"
  rd_quantity :: "json option"
  rd_quantity_unit :: "string option"
  rd_calories_per_100g :: "json option"
  rd_protein_per_100g :: "json option"
  rd_carbs_per_100g :: "json option"
  rd_fat_per_100g :: "json option"

text \<open>
  What \<^verbatim>\<open>json.loads\<close> returns for a text that is JSON: a \<^verbatim>\<open>dict\<close> when the text is an
  object, and a value of another type (a list, a string, a number, a \<^verbatim>\<open>bool\<close> or
  \<^verbatim>\<open>None\<close>) otherwise.
\<close>

datatype loaded = Dict response_data | Not_a_dict

text \<open>The dictionary \<^verbatim>\<open>example_json\<close> of the prompt.\<close>

definition example_json :: response_data where
  "example_json =
     \<lparr>rd_food_item = Some ''bolo de banana'', rd_quantity = Some (JNumber 175),
      rd_quantity_unit = Some ''g'', rd_calories_per_100g = Some (JNumber 300),
      rd_protein_per_100g = Some (JNumber 4), rd_carbs_per_100g = Some (JNumber 40),
      rd_fat_per_100g = Some (JNumber 14)\<rparr>"

text \<open>
  The stores. \<open>food_log\<close> holds the rows in the order of their insertion, and
  \<open>food_log_seq\<close> is the counter that AUTOINCREMENT keeps in \<^verbatim>\<open>sqlite_sequence\<close>: the
  largest id the table has ever given out. \<open>daily_summary\<close> maps the UNIQUE column
  \<^verbatim>\<open>date\<close> to the four totals of its row, and \<open>cache\<close> maps the PRIMARY KEY \<^verbatim>\<open>food_item\<close>
  to the dictionary that \<^verbatim>\<open>nutrition_data\<close> holds as JSON text (\<^verbatim>\<open>json.loads\<close> gives back
  what \<^verbatim>\<open>json.dumps\<close> was given).
\<close>

type_synonym totals = "real \<times> real \<times> real \<times> real"

record state =
  food_log :: "food_log_row list"
  food_log_seq :: nat
  daily_summary :: "string \<rightharpoonup> totals"
  cache :: "string \<rightharpoonup> json nutrition"

text \<open>The exceptions the code meets.\<close>

datatype error =
    ChainError
  | JSONDecodeError
  | KeyError string
  | TypeError
  | EOFError
  | OverflowError
  | IntegrityError

subsection \<open>\<^verbatim>\<open>cache.py\<close>\<close>

definition get_from_cache :: "state \<Rightarrow> string \<Rightarrow> json nutrition option" where
  "get_from_cache st key = cache st key"

text \<open>\<^verbatim>\<open>INSERT OR REPLACE INTO cache\<close>: the row of the key is replaced.\<close>

definition add_to_cache :: "string \<Rightarrow> json nutrition \<Rightarrow> state \<Rightarrow> state" where
  "add_to_cache key nutrition_data st = st\<lparr>cache := (cache st)(key \<mapsto> nutrition_data)\<rparr>"

subsection \<open>\<^verbatim>\<open>log_food\<close> and \<^verbatim>\<open>save_entry\<close>\<close>

text \<open>
  \<^verbatim>\<open>save_entry\<close>: one row is inserted, with the clock's reading as timestamp. AUTOINCREMENT
  gives it an id one above the largest id the table has held.
\<close>

definition next_id :: "state \<Rightarrow> nat" where
  "next_id st = Suc (fold max (map row_id (food_log st)) (food_log_seq st))"

definition save_entry :: "calculated_nutrition \<Rightarrow> datetime \<Rightarrow> state \<Rightarrow> state" where
  "save_entry data now st =
     st\<lparr>food_log := food_log st @
          [\<lparr>calories = calories data, protein = protein data, carbs = carbs data,
            fat = fat data, food_item = food_item data, quantity = quantity data,
            quantity_unit = quantity_unit data,
            row_id = next_id st, timestamp = isoformat now\<rparr>],
        food_log_seq := next_id st\<rparr>"

text \<open>
  Lines 146 and 147 of \<^verbatim>\<open>log_food\<close>: when the reply contains the marker, the text between
  its first occurrence and the next fence is kept, stripped of white space.
\<close>

definition clean_response :: "string \<Rightarrow> string" where
  "clean_response response_str =
     (if str_contains ''```json'' response_str
      then strip (hd (split (split response_str ''```json'' ! 1) ''```''))
      else response_str)"

text \<open>
  Lines 170 to 179: the multiplier and the dictionary \<^verbatim>\<open>calculated_nutrition\<close>, for a
  quantity and a profile that are numbers.
\<close>

definition calculate_nutrition ::
  "string \<Rightarrow> real \<Rightarrow> string \<Rightarrow> real nutrition \<Rightarrow> calculated_nutrition" where
  "calculate_nutrition fi q qu nutrition_per_100g =
     (let multiplier = q / 100
      in \<lparr>calories = calories nutrition_per_100g * multiplier,
          protein = protein nutrition_per_100g * multiplier,
          carbs = carbs nutrition_per_100g * multiplier,
          fat = fat nutrition_per_100g * multiplier,
          food_item = fi, quantity = q, quantity_unit = qu\<rparr>)"

text \<open>
  What a call of \<^verbatim>\<open>log_food\<close> prints. \<open>resolved\<close> is the estimation shown before the
  question: whether the cache was hit (the line with the target sign), the profile used,
  as numbers, and the dictionary \<^verbatim>\<open>calculated_nutrition\<close>.
\<close>

record resolved =
  cache_hit :: bool
  nutrition_per_100g :: "real nutrition"
  calculated :: calculated_nutrition

datatype log_result =
    LLM_not_initialized
  | Could_not_process error
  | Entry_saved resolved
  | Entry_discarded resolved

text \<open>The result of \<^verbatim>\<open>chain.invoke\<close>: an exception of the client, or the reply's text.\<close>

datatype chain_reply = Chain_raised | Chain_returned string

text \<open>
  Lines 161 to 166: the profile built from the reply on a cache miss. The keys are read
  in the order of the dictionary display, and the first one absent raises KeyError. The
  values are taken as they are.
\<close>

definition draft_nutrition :: "response_data \<Rightarrow> error + json nutrition" where
  "draft_nutrition response_data =
     (case rd_calories_per_100g response_data of
        None \<Rightarrow> Inl (KeyError ''calories_per_100g'')
      | Some c \<Rightarrow>
     (case rd_protein_per_100g response_data of
        None \<Rightarrow> Inl (KeyError ''protein_per_100g'')
      | Some p \<Rightarrow>
     (case rd_carbs_per_100g response_data of
        None \<Rightarrow> Inl (KeyError ''carbs_per_100g'')
      | Some cb \<Rightarrow>
     (case rd_fat_per_100g response_data of
        None \<Rightarrow> Inl (KeyError ''fat_per_100g'')
      | Some f \<Rightarrow> Inr \<lparr>calories = c, protein = p, carbs = cb, fat = f\<rparr>))))"

text \<open>
  Lines 169 to 196 for a quantity and a profile that are numbers: the scaling, the
  estimation shown, the question and the write. \<open>confirm_input\<close> is what \<^verbatim>\<open>input\<close>
  returns, \<open>None\<close> when it raises EOFError.
\<close>

definition confirm_and_save ::
  "bool \<Rightarrow> real nutrition \<Rightarrow> string \<Rightarrow> real \<Rightarrow> string \<Rightarrow> string option \<Rightarrow> datetime \<Rightarrow> state
     \<Rightarrow> state \<times> log_result" where
  "confirm_and_save hit n fi q qu confirm_input now st =
     (let calculated_nutrition = calculate_nutrition fi q qu n;
          shown = \<lparr>cache_hit = hit, nutrition_per_100g = n, calculated = calculated_nutrition\<rparr>
      in case confirm_input of
           None \<Rightarrow> (st, Could_not_process EOFError)
         | Some answer \<Rightarrow>
             if lower answer = ''y''
             then (save_entry calculated_nutrition now st, Entry_saved shown)
             else (st, Entry_discarded shown))"

text \<open>
  Lines 169 to 196 for the values as they come: the division of line 170 and the
  products of lines 175 to 178 raise TypeError when the quantity or a value of the
  profile is no number. The exception is caught with the state as it is then, the cache
  entry of a miss included.
\<close>

definition scale_and_confirm ::
  "bool \<Rightarrow> json nutrition \<Rightarrow> string \<Rightarrow> json \<Rightarrow> string \<Rightarrow> string option \<Rightarrow> datetime \<Rightarrow> state
     \<Rightarrow> state \<times> log_result" where
  "scale_and_confirm hit nutrition fi quantity_value qu confirm_input now st =
     (case as_number quantity_value of
        None \<Rightarrow> (st, Could_not_process TypeError)
      | Some q \<Rightarrow>
          (case as_numbers nutrition of
             None \<Rightarrow> (st, Could_not_process TypeError)
           | Some n \<Rightarrow> confirm_and_save hit n fi q qu confirm_input now st))"

text \<open>
  Lines 150 to 167: the three keys read first, the cache consulted, and the cache filled
  on a miss, before anything is computed and the question is asked.
\<close>

definition resolve ::
  "response_data \<Rightarrow> string option \<Rightarrow> datetime \<Rightarrow> state \<Rightarrow> state \<times> log_result" where
  "resolve response_data confirm_input now st =
     (case rd_food_item response_data of
        None \<Rightarrow> (st, Could_not_process (KeyError ''food_item''))
      | Some fi \<Rightarrow>
     (case rd_quantity response_data of
        None \<Rightarrow> (st, Could_not_process (KeyError ''quantity''))
      | Some q \<Rightarrow>
     (case rd_quantity_unit response_data of
        None \<Rightarrow> (st, Could_not_process (KeyError ''quantity_unit''))
      | Some qu \<Rightarrow>
     (case get_from_cache st fi of
        Some cached_nutrition \<Rightarrow>
          scale_and_confirm True cached_nutrition fi q qu confirm_input now st
      | None \<Rightarrow>
          (case draft_nutrition response_data of
             Inl e \<Rightarrow> (st, Could_not_process e)
           | Inr n \<Rightarrow>
               scale_and_confirm False n fi q qu confirm_input now (add_to_cache fi n st))))))"

text \<open>
  \<^verbatim>\<open>log_food\<close> of \<^verbatim>\<open>src/src/mtracker/main.py\<close>. \<open>chain\<close> is \<open>None\<close> when no API key was
  set. \<open>json_loads\<close> returns \<open>None\<close> where \<^verbatim>\<open>json.loads\<close> raises JSONDecodeError. On a value
  that is no \<^verbatim>\<open>dict\<close> the subscript \<^verbatim>\<open>response_data["food_item"]\<close> of line 150 raises
  TypeError. Every exception raised inside the \<^verbatim>\<open>try\<close> is caught and printed. \<^verbatim>\<open>log_food\<close>
  of \<^verbatim>\<open>src/main.py\<close> is the same function without the first test: there the chain
  always exists.
\<close>

definition log_food ::
  "(string \<Rightarrow> loaded option) \<Rightarrow> (string \<Rightarrow> chain_reply) option \<Rightarrow> string
     \<Rightarrow> string option \<Rightarrow> datetime \<Rightarrow> state \<Rightarrow> state \<times> log_result" where
  "log_food json_loads chain text_input confirm_input now st =
     (case chain of
        None \<Rightarrow> (st, LLM_not_initialized)
      | Some invoke \<Rightarrow>
          (case invoke text_input of
             Chain_raised \<Rightarrow> (st, Could_not_process ChainError)
           | Chain_returned response_str \<Rightarrow>
               (case json_loads (clean_response response_str) of
                  None \<Rightarrow> (st, Could_not_process JSONDecodeError)
                | Some Not_a_dict \<Rightarrow> (st, Could_not_process TypeError)
                | Some (Dict response_data) \<Rightarrow> resolve response_data confirm_input now st)))"

subsection \<open>The queries on \<^verbatim>\<open>food_log\<close>\<close>

text \<open>\<^verbatim>\<open>WHERE timestamp >= ? AND timestamp < ?\<close>: the rows of the range, in table order.\<close>

definition in_range :: "string \<Rightarrow> string \<Rightarrow> food_log_row \<Rightarrow> bool" where
  "in_range start_ts end_ts r = (text_le start_ts (timestamp r) \<and> text_less (timestamp r) end_ts)"

definition rows_between :: "state \<Rightarrow> string \<Rightarrow> string \<Rightarrow> food_log_row list" where
  "rows_between st start_ts end_ts = filter (in_range start_ts end_ts) (food_log st)"

text \<open>
  The aggregate \<^verbatim>\<open>SUM\<close> of SQLite over a column that is NOT NULL: NULL (\<open>None\<close>) when no
  row is selected, the sum of the values otherwise.
\<close>

definition sql_sum :: "real list \<Rightarrow> real option" where
  "sql_sum xs = (if xs = [] then None else Some (sum_list xs))"

text \<open>
  The query of \<^verbatim>\<open>get_todays_summary\<close> and the tuple that \<^verbatim>\<open>fetchone\<close> returns for it: an
  aggregate query always has one row.
\<close>

definition select_sums ::
  "state \<Rightarrow> string \<Rightarrow> string \<Rightarrow> real option \<times> real option \<times> real option \<times> real option" where
  "select_sums st start_ts end_ts =
     (let rows = rows_between st start_ts end_ts
      in (sql_sum (map calories rows), sql_sum (map protein rows),
          sql_sum (map carbs rows), sql_sum (map fat rows)))"

text \<open>
  \<^verbatim>\<open>today_start\<close> and \<^verbatim>\<open>today_end\<close> of \<^verbatim>\<open>get_todays_summary\<close> and \<^verbatim>\<open>remove_last_entry\<close>, as
  the two texts bound to the query; \<open>None\<close> when the addition of one day overflows.
\<close>

definition today_start :: "datetime \<Rightarrow> datetime" where
  "today_start now = now\<lparr>hour := 0, minute := 0, second := 0, microsecond := 0\<rparr>"

definition today_range :: "datetime \<Rightarrow> (string \<times> string) option" where
  "today_range now =
     (case add_one_day (today_start now) of
        None \<Rightarrow> None
      | Some today_end \<Rightarrow> Some (isoformat (today_start now), isoformat today_end))"

subsection \<open>The daily summary\<close>

text \<open>
  \<^verbatim>\<open>save_todays_summary\<close>: \<^verbatim>\<open>INSERT OR REPLACE\<close> of the row of today's date, read from the
  clock again. The four columns are NOT NULL: a NULL among the values is refused with
  IntegrityError and nothing is written.
\<close>

definition save_todays_summary ::
  "real option \<times> real option \<times> real option \<times> real option \<Rightarrow> datetime \<Rightarrow> state
     \<Rightarrow> state \<times> error option" where
  "save_todays_summary summary_data now st =
     (case summary_data of
        (Some c, Some p, Some cb, Some f) \<Rightarrow>
          (st\<lparr>daily_summary := (daily_summary st)(date_isoformat now \<mapsto> (c, p, cb, f))\<rparr>, None)
      | _ \<Rightarrow> (st, Some IntegrityError))"

text \<open>What \<^verbatim>\<open>get_todays_summary\<close> prints: the four totals, or that there are no entries.\<close>

datatype summary_output = Totals "real option" "real option" "real option" "real option" | No_entries_for_today

text \<open>
  \<^verbatim>\<open>get_todays_summary\<close> of \<^verbatim>\<open>src/src/mtracker/main.py\<close>. \<open>now\<close> is the clock read for the
  range and \<open>now_save\<close> the clock read in \<^verbatim>\<open>save_todays_summary\<close>. An exception is not
  caught here: \<open>Inl\<close> is the exception that leaves the function.
\<close>

definition get_todays_summary ::
  "datetime \<Rightarrow> datetime \<Rightarrow> state \<Rightarrow> state \<times> (error + summary_output)" where
  "get_todays_summary now now_save st =
     (case today_range now of
        None \<Rightarrow> (st, Inl OverflowError)
      | Some (start_ts, end_ts) \<Rightarrow>
          (case select_sums st start_ts end_ts of
             (None, p, cb, f) \<Rightarrow> (st, Inr No_entries_for_today)
           | (Some c, p, cb, f) \<Rightarrow>
               (case save_todays_summary (Some c, p, cb, f) now_save st of
                  (st', Some e) \<Rightarrow> (st', Inl e)
                | (st', None) \<Rightarrow> (st', Inr (Totals (Some c) p cb f)))))"

text \<open>
  \<^verbatim>\<open>get_todays_summary\<close> of \<^verbatim>\<open>src/main.py\<close>: the same query, and nothing is saved.
\<close>

definition main_get_todays_summary :: "datetime \<Rightarrow> state \<Rightarrow> state \<times> (error + summary_output)" where
  "main_get_todays_summary now st =
     (case today_range now of
        None \<Rightarrow> (st, Inl OverflowError)
      | Some (start_ts, end_ts) \<Rightarrow>
          (case select_sums st start_ts end_ts of
             (None, p, cb, f) \<Rightarrow> (st, Inr No_entries_for_today)
           | (Some c, p, cb, f) \<Rightarrow> (st, Inr (Totals (Some c) p cb f))))"

text \<open>
  \<^verbatim>\<open>get_summary_for_date\<close>: the date is parsed first, and only a date that parses is
  looked up in \<^verbatim>\<open>daily_summary\<close>. The function only reads.
\<close>

datatype date_summary_output =
    Invalid_date_format
  | No_summary_found string
  | Summary_for string totals

definition get_summary_for_date :: "string \<Rightarrow> state \<Rightarrow> state \<times> date_summary_output" where
  "get_summary_for_date date_str st =
     (case strptime_ymd date_str of
        None \<Rightarrow> (st, Invalid_date_format)
      | Some d \<Rightarrow>
          (case daily_summary st (date_isoformat d) of
             None \<Rightarrow> (st, No_summary_found (date_isoformat d))
           | Some summary \<Rightarrow> (st, Summary_for (date_isoformat d) summary)))"

subsection \<open>\<^verbatim>\<open>remove_last_entry\<close>\<close>

text \<open>
  \<^verbatim>\<open>ORDER BY id DESC LIMIT 1\<close>: the row of the largest id among the rows given, if there
  is one.
\<close>

fun last_by_id :: "food_log_row list \<Rightarrow> food_log_row option" where
  "last_by_id [] = None"
| "last_by_id (r # rs) =
     (case last_by_id rs of
        None \<Rightarrow> Some r
      | Some r' \<Rightarrow> if row_id r' < row_id r then Some r else Some r')"

text \<open>\<^verbatim>\<open>DELETE FROM food_log WHERE id = ?\<close>.\<close>

definition delete_by_id :: "nat \<Rightarrow> state \<Rightarrow> state" where
  "delete_by_id entry_id st = st\<lparr>food_log := filter (\<lambda>r. row_id r \<noteq> entry_id) (food_log st)\<rparr>"

text \<open>
  What \<^verbatim>\<open>remove_last_entry\<close> prints: the entry removed (its id, food item, quantity and
  unit) and the summary shown after it, or that there is nothing to remove.
\<close>

datatype remove_output =
    Entry_removed nat string real string summary_output
  | No_entries_to_remove

text \<open>
  \<^verbatim>\<open>remove_last_entry\<close>. \<open>now\<close> is the clock read for the range; \<open>now2\<close> and \<open>now3\<close> are the
  two clock reads of the call of \<^verbatim>\<open>get_todays_summary\<close> that follows the deletion. The
  deletion is committed before that call, so an exception of the call leaves it done.
\<close>

definition remove_last_entry ::
  "datetime \<Rightarrow> datetime \<Rightarrow> datetime \<Rightarrow> state \<Rightarrow> state \<times> (error + remove_output)" where
  "remove_last_entry now now2 now3 st =
     (case today_range now of
        None \<Rightarrow> (st, Inl OverflowError)
      | Some (start_ts, end_ts) \<Rightarrow>
          (case last_by_id (rows_between st start_ts end_ts) of
             None \<Rightarrow> (st, Inr No_entries_to_remove)
           | Some last_entry \<Rightarrow>
               (case get_todays_summary now2 now3 (delete_by_id (row_id last_entry) st) of
                  (st', Inl e) \<Rightarrow> (st', Inl e)
                | (st', Inr shown) \<Rightarrow>
                    (st', Inr (Entry_removed (row_id last_entry) (food_item last_entry)
                                 (quantity last_entry) (quantity_unit last_entry) shown)))))"

subsection \<open>\<^verbatim>\<open>history.py\<close>\<close>

text \<open>
  \<^verbatim>\<open>ORDER BY timestamp\<close>, as an insertion sort that keeps the table order of rows with
  equal timestamps (SQL leaves their order open).
\<close>

fun insert_by_timestamp :: "food_log_row \<Rightarrow> food_log_row list \<Rightarrow> food_log_row list" where
  "insert_by_timestamp r [] = [r]"
| "insert_by_timestamp r (x # xs) =
     (if text_less (timestamp r) (timestamp x) then r # x # xs
      else x # insert_by_timestamp r xs)"

definition order_by_timestamp :: "food_log_row list \<Rightarrow> food_log_row list" where
  "order_by_timestamp rows = foldl (\<lambda>acc r. insert_by_timestamp r acc) [] rows"

text \<open>
  What \<^verbatim>\<open>get_meals_for_date\<close> shows: the rows found, without their ids, or that there are
  none. The pagination of the text is left out.
\<close>

datatype meals_output =
    Invalid_meals_date
  | No_meals_found string
  | Meals string "(string \<times> string \<times> real \<times> string \<times> real \<times> real \<times> real \<times> real) list"

definition meal_columns ::
  "food_log_row \<Rightarrow> string \<times> string \<times> real \<times> string \<times> real \<times> real \<times> real \<times> real" where
  "meal_columns r =
     (timestamp r, food_item r, quantity r, quantity_unit r, calories r, protein r, carbs r, fat r)"

text \<open>
  \<^verbatim>\<open>get_meals_for_date\<close>: the date is parsed first; the range runs from the first instant
  of the day to its last microsecond, which the strict comparison leaves out.
\<close>

definition get_meals_for_date :: "string \<Rightarrow> state \<Rightarrow> state \<times> meals_output" where
  "get_meals_for_date date_str st =
     (case strptime_ymd date_str of
        None \<Rightarrow> (st, Invalid_meals_date)
      | Some d \<Rightarrow>
          (let start_date = isoformat (combine_min d);
               end_date = isoformat (combine_max d);
               meals = map meal_columns (order_by_timestamp (rows_between st start_date end_date))
           in if meals \<noteq> [] then (st, Meals (date_isoformat d) meals)
              else (st, No_meals_found (date_isoformat d))))"

subsection \<open>Sample inputs\<close>

text \<open>
  \<^verbatim>\<open>init_db\<close> and \<^verbatim>\<open>init_cache_db\<close> on files that do not exist yet: the three tables are
  created empty.
\<close>

definition init_db :: state where
  "init_db = \<lparr>food_log = [], food_log_seq = 0, daily_summary = Map.empty, cache = Map.empty\<rparr>"

text \<open>\<^verbatim>\<open>example_str\<close> of the prompt: \<^verbatim>\<open>json.dumps(example_json)\<close>.\<close>

definition example_str :: string where
  "example_str = ''{\"food_item\": \"bolo de banana\", \"quantity\": 175, \"quantity_unit\": \"g\", \"calories_per_100g\": 300, \"protein_per_100g\": 4, \"carbs_per_100g\": 40, \"fat_per_100g\": 14}''"

text \<open>
  The examples below need \<^verbatim>\<open>json.loads\<close> on few texts only: on \<^verbatim>\<open>example_str\<close>, where it
  returns \<^verbatim>\<open>example_json\<close>, and on texts that are no JSON. \<open>example_loads\<close> stands for it
  there. The general statements hold for every function in its place.
\<close>

definition example_loads :: "string \<Rightarrow> loaded option" where
  "example_loads s = (if s = example_str then Some (Dict example_json) else None)"

text \<open>A language model that answers every text with the same reply.\<close>

definition chain_replying :: "string \<Rightarrow> (string \<Rightarrow> chain_reply) option" where
  "chain_replying reply = Some (\<lambda>text_input. Chain_returned reply)"

text \<open>A reading of the clock: 31 May 2024, 12:30:05.\<close>

definition example_now :: datetime where
  "example_now =
     \<lparr>year = 2024, month = 5, day = 31, hour = 12, minute = 30, second = 5, microsecond = 0\<rparr>"

text \<open>A later reading, in the evening of that day: 19:45:10.\<close>

definition example_later :: datetime where
  "example_later =
     \<lparr>year = 2024, month = 5, day = 31, hour = 19, minute = 45, second = 10, microsecond = 0\<rparr>"

section \<open>Properties\<close>

subsection \<open>Evaluation of the string functions\<close>

lemma lower_answers: "lower ''y'' = ''y''" "lower ''Y'' = ''y''" "lower ''n'' = ''n''"
  by code_simp+

lemmas text_eval = isoformat_def date_isoformat_def pad2_def pad4_def pad6_def digit_char_def

lemmas log_food_eval = log_food_def clean_response_def resolve_def get_from_cache_def
  draft_nutrition_def add_to_cache_def scale_and_confirm_def as_numbers_def
  confirm_and_save_def Let_def lower_answers calculate_nutrition_def save_entry_def next_id_def

lemmas example_eval = init_db_def example_str_def example_json_def example_loads_def
  chain_replying_def example_now_def

subsection \<open>What a call of \<^verbatim>\<open>log_food\<close> that saved an entry has done\<close>

lemma confirm_and_save_saved:
  "confirm_and_save hit n fi q qu confirm_input now st = (st', Entry_saved r) \<Longrightarrow>
   st' = save_entry (calculate_nutrition fi q qu n) now st \<and>
   r = \<lparr>cache_hit = hit, nutrition_per_100g = n, calculated = calculate_nutrition fi q qu n\<rparr>"
  by (auto simp: confirm_and_save_def Let_def split: option.splits if_splits)

lemma scale_and_confirm_shown:
  assumes "scale_and_confirm hit raw fi qv qu confirm_input now st = (st', out)"
    and "out = Entry_saved r \<or> out = Entry_discarded r"
  shows "\<exists>q. as_number qv = Some q \<and> as_numbers raw = Some (nutrition_per_100g r)
           \<and> calculated r = calculate_nutrition fi q qu (nutrition_per_100g r)
           \<and> cache_hit r = hit
           \<and> confirm_and_save hit (nutrition_per_100g r) fi q qu confirm_input now st = (st', out)"
  using assms
  by (auto simp: scale_and_confirm_def confirm_and_save_def Let_def
      split: option.splits if_splits)

lemma resolve_saved:
  assumes "resolve d confirm_input now st = (st', Entry_saved r)"
  shows "\<exists>st_mid fi q qu raw. st' = save_entry (calculated r) now st_mid
          \<and> food_log st_mid = food_log st \<and> food_log_seq st_mid = food_log_seq st
          \<and> cache st_mid fi = Some raw \<and> as_numbers raw = Some (nutrition_per_100g r)
          \<and> calculated r = calculate_nutrition fi q qu (nutrition_per_100g r)"
proof -
  from assms obtain hit raw fi qv qu st_mid where
    run: "scale_and_confirm hit raw fi qv qu confirm_input now st_mid = (st', Entry_saved r)"
    and mid: "food_log st_mid = food_log st" "food_log_seq st_mid = food_log_seq st"
      "cache st_mid fi = Some raw"
    by (auto simp: resolve_def get_from_cache_def add_to_cache_def
        split: option.splits sum.splits)
  from scale_and_confirm_shown[OF run] obtain q where
    q: "as_numbers raw = Some (nutrition_per_100g r)"
      "calculated r = calculate_nutrition fi q qu (nutrition_per_100g r)"
      "confirm_and_save hit (nutrition_per_100g r) fi q qu confirm_input now st_mid =
         (st', Entry_saved r)"
    by blast
  from confirm_and_save_saved[OF q(3)] q(2)
  have "st' = save_entry (calculated r) now st_mid" by simp
  with mid q(1,2) show ?thesis by blast
qed

lemma log_food_saved:
  assumes "log_food json_loads chain text_input confirm_input now st = (st', Entry_saved r)"
  shows "\<exists>st_mid fi q qu raw. st' = save_entry (calculated r) now st_mid
          \<and> food_log st_mid = food_log st \<and> food_log_seq st_mid = food_log_seq st
          \<and> cache st_mid fi = Some raw \<and> as_numbers raw = Some (nutrition_per_100g r)
          \<and> calculated r = calculate_nutrition fi q qu (nutrition_per_100g r)"
proof -
  from assms obtain d where "resolve d confirm_input now st = (st', Entry_saved r)"
    by (auto simp: log_food_def split: option.splits chain_reply.splits loaded.splits)
  then show ?thesis by (rule resolve_saved)
qed

subsection \<open>C1: the scaling\<close>

text \<open>
  Claim C1. Whenever \<^verbatim>\<open>log_food\<close> saves an entry, one row is appended whose calories,
  protein, carbs and fat are the values of the profile used times the quantity over 100,
  and that profile is what the cache holds for the food item afterwards, its values
  read as numbers. In particular,
  with an empty cache, a reply with quantity 175 and the values 300, 4, 40 and 14 per
  100 g, confirmed, gives a row with 525, 7, 70 and 24.5 and a cache entry with the
  unscaled values.
\<close>

theorem scaling_correctness:
  "(\<forall>json_loads chain text_input confirm_input now st st' r.
      log_food json_loads chain text_input confirm_input now st = (st', Entry_saved r) \<longrightarrow>
      (\<exists>row. food_log st' = food_log st @ [row]
         \<and> calories row = calories (nutrition_per_100g r) * quantity row / 100
         \<and> protein row = protein (nutrition_per_100g r) * quantity row / 100
         \<and> carbs row = carbs (nutrition_per_100g r) * quantity row / 100
         \<and> fat row = fat (nutrition_per_100g r) * quantity row / 100
         \<and> (\<exists>raw. cache st' (food_item row) = Some raw
               \<and> as_numbers raw = Some (nutrition_per_100g r))))
   \<and> (\<forall>now. \<exists>st' r row.
        log_food
          (\<lambda>s. if s = ''{\"food_item\": \"banana cake\", \"quantity\": 175, \"quantity_unit\": \"g\", \"calories_per_100g\": 300, \"protein_per_100g\": 4, \"carbs_per_100g\": 40, \"fat_per_100g\": 14}''
                then Some (Dict (example_json\<lparr>rd_food_item := Some ''banana cake''\<rparr>)) else None)
          (Some (\<lambda>t. Chain_returned ''{\"food_item\": \"banana cake\", \"quantity\": 175, \"quantity_unit\": \"g\", \"calories_per_100g\": 300, \"protein_per_100g\": 4, \"carbs_per_100g\": 40, \"fat_per_100g\": 14}''))
          ''175g of banana cake'' (Some ''y'') now
          \<lparr>food_log = [], food_log_seq = 0, daily_summary = Map.empty, cache = Map.empty\<rparr>
          = (st', Entry_saved r)
        \<and> food_log st' = [row]
        \<and> food_item row = ''banana cake'' \<and> quantity row = 175 \<and> quantity_unit row = ''g''
        \<and> calories row = 525 \<and> protein row = 7 \<and> carbs row = 70 \<and> fat row = 24.5
        \<and> cache st' ''banana cake'' =
            Some \<lparr>calories = JNumber 300, protein = JNumber 4, carbs = JNumber 40,
                  fat = JNumber 14\<rparr>)"
proof (intro conjI allI impI)
  fix json_loads chain text_input confirm_input now st st' r
  assume "log_food json_loads chain text_input confirm_input now st = (st', Entry_saved r)"
  from log_food_saved[OF this] obtain st_mid fi q qu raw where
    h: "st' = save_entry (calculated r) now st_mid" "food_log st_mid = food_log st"
       "cache st_mid fi = Some raw" "as_numbers raw = Some (nutrition_per_100g r)"
       "calculated r = calculate_nutrition fi q qu (nutrition_per_100g r)"
    by blast
  show "\<exists>row. food_log st' = food_log st @ [row]
         \<and> calories row = calories (nutrition_per_100g r) * quantity row / 100
         \<and> protein row = protein (nutrition_per_100g r) * quantity row / 100
         \<and> carbs row = carbs (nutrition_per_100g r) * quantity row / 100
         \<and> fat row = fat (nutrition_per_100g r) * quantity row / 100
         \<and> (\<exists>raw. cache st' (food_item row) = Some raw
               \<and> as_numbers raw = Some (nutrition_per_100g r))"
    using h by (simp add: save_entry_def calculate_nutrition_def)
next
  fix now
  show "\<exists>st' r row.
        log_food
          (\<lambda>s. if s = ''{\"food_item\": \"banana cake\", \"quantity\": 175, \"quantity_unit\": \"g\", \"calories_per_100g\": 300, \"protein_per_100g\": 4, \"carbs_per_100g\": 40, \"fat_per_100g\": 14}''
                then Some (Dict (example_json\<lparr>rd_food_item := Some ''banana cake''\<rparr>)) else None)
          (Some (\<lambda>t. Chain_returned ''{\"food_item\": \"banana cake\", \"quantity\": 175, \"quantity_unit\": \"g\", \"calories_per_100g\": 300, \"protein_per_100g\": 4, \"carbs_per_100g\": 40, \"fat_per_100g\": 14}''))
          ''175g of banana cake'' (Some ''y'') now
          \<lparr>food_log = [], food_log_seq = 0, daily_summary = Map.empty, cache = Map.empty\<rparr>
          = (st', Entry_saved r)
        \<and> food_log st' = [row]
        \<and> food_item row = ''banana cake'' \<and> quantity row = 175 \<and> quantity_unit row = ''g''
        \<and> calories row = 525 \<and> protein row = 7 \<and> carbs row = 70 \<and> fat row = 24.5
        \<and> cache st' ''banana cake'' =
            Some \<lparr>calories = JNumber 300, protein = JNumber 4, carbs = JNumber 40,
                  fat = JNumber 14\<rparr>"
    by (simp add: log_food_eval example_json_def)
qed

theorem scaling_correctness_witness:
  "\<exists>st' r row.
     log_food (\<lambda>s. if s = ''{\"food_item\": \"rice\", \"quantity\": 250, \"quantity_unit\": \"g\", \"calories_per_100g\": 999, \"protein_per_100g\": 9, \"carbs_per_100g\": 9, \"fat_per_100g\": 9}''
                    then Some (Dict \<lparr>rd_food_item = Some ''rice'', rd_quantity = Some (JNumber 250),
                      rd_quantity_unit = Some ''g'', rd_calories_per_100g = Some (JNumber 999),
                      rd_protein_per_100g = Some (JNumber 9), rd_carbs_per_100g = Some (JNumber 9),
                      rd_fat_per_100g = Some (JNumber 9)\<rparr>) else None)
       (Some (\<lambda>t. Chain_returned ''{\"food_item\": \"rice\", \"quantity\": 250, \"quantity_unit\": \"g\", \"calories_per_100g\": 999, \"protein_per_100g\": 9, \"carbs_per_100g\": 9, \"fat_per_100g\": 9}''))
       ''250g of rice'' (Some ''Y'')
       \<lparr>year = 2024, month = 5, day = 31, hour = 12, minute = 30, second = 5, microsecond = 0\<rparr>
       \<lparr>food_log = [], food_log_seq = 0, daily_summary = Map.empty,
        cache = [''rice'' \<mapsto> \<lparr>calories = JNumber 130, protein = JNumber 2.7,
                              carbs = JNumber 28, fat = JNumber 0.3\<rparr>]\<rparr>
       = (st', Entry_saved r)
     \<and> food_log st' = [row]
     \<and> calories row = calories (nutrition_per_100g r) * quantity row / 100
     \<and> calories row = 325 \<and> protein row = 6.75 \<and> carbs row = 70 \<and> fat row = 0.75
     \<and> (\<exists>raw. cache st' (food_item row) = Some raw
           \<and> as_numbers raw = Some (nutrition_per_100g r))"
proof -
  let ?run = "log_food (\<lambda>s. if s = ''{\"food_item\": \"rice\", \"quantity\": 250, \"quantity_unit\": \"g\", \"calories_per_100g\": 999, \"protein_per_100g\": 9, \"carbs_per_100g\": 9, \"fat_per_100g\": 9}''
                    then Some (Dict \<lparr>rd_food_item = Some ''rice'', rd_quantity = Some (JNumber 250),
                      rd_quantity_unit = Some ''g'', rd_calories_per_100g = Some (JNumber 999),
                      rd_protein_per_100g = Some (JNumber 9), rd_carbs_per_100g = Some (JNumber 9),
                      rd_fat_per_100g = Some (JNumber 9)\<rparr>) else None)
       (Some (\<lambda>t. Chain_returned ''{\"food_item\": \"rice\", \"quantity\": 250, \"quantity_unit\": \"g\", \"calories_per_100g\": 999, \"protein_per_100g\": 9, \"carbs_per_100g\": 9, \"fat_per_100g\": 9}''))
       ''250g of rice'' (Some ''Y'')
       \<lparr>year = 2024, month = 5, day = 31, hour = 12, minute = 30, second = 5, microsecond = 0\<rparr>
       \<lparr>food_log = [], food_log_seq = 0, daily_summary = Map.empty,
        cache = [''rice'' \<mapsto> \<lparr>calories = JNumber 130, protein = JNumber 2.7,
                              carbs = JNumber 28, fat = JNumber 0.3\<rparr>]\<rparr>"
  obtain st' r where run: "?run = (st', Entry_saved r)"
    by (simp add: log_food_eval)
  from scaling_correctness[THEN conjunct1, rule_format, OF run] obtain row where
    row: "food_log st' = [row]"
      "calories row = calories (nutrition_per_100g r) * quantity row / 100"
      "\<exists>raw. cache st' (food_item row) = Some raw
           \<and> as_numbers raw = Some (nutrition_per_100g r)"
    by auto
  from run have vals: "food_log st' =
     [\<lparr>calories = 325, protein = 6.75, carbs = 70, fat = 0.75, food_item = ''rice'',
       quantity = 250, quantity_unit = ''g'', row_id = 1,
       timestamp = ''2024-05-31T12:30:05''\<rparr>]"
    by (auto simp: log_food_eval text_eval)
  with row(1) have "calories row = 325 \<and> protein row = 6.75 \<and> carbs row = 70 \<and> fat row = 0.75"
    by auto
  with run row show ?thesis by blast
qed

subsection \<open>The paths of \<^verbatim>\<open>log_food\<close>\<close>

lemma log_food_hit:
  assumes "invoke text_input = Chain_returned s" "json_loads (clean_response s) = Some (Dict d)"
    "rd_food_item d = Some fi" "rd_quantity d = Some qv" "rd_quantity_unit d = Some qu"
    "cache st fi = Some raw"
  shows "log_food json_loads (Some invoke) text_input confirm_input now st =
         scale_and_confirm True raw fi qv qu confirm_input now st"
  using assms by (simp add: log_food_def resolve_def get_from_cache_def)

lemma log_food_miss:
  assumes "invoke text_input = Chain_returned s" "json_loads (clean_response s) = Some (Dict d)"
    "rd_food_item d = Some fi" "rd_quantity d = Some qv" "rd_quantity_unit d = Some qu"
    "rd_calories_per_100g d = Some vc" "rd_protein_per_100g d = Some vp"
    "rd_carbs_per_100g d = Some vcb" "rd_fat_per_100g d = Some vf"
    "cache st fi = None"
  shows "log_food json_loads (Some invoke) text_input confirm_input now st =
         scale_and_confirm False \<lparr>calories = vc, protein = vp, carbs = vcb, fat = vf\<rparr> fi qv qu
           confirm_input now
           (add_to_cache fi \<lparr>calories = vc, protein = vp, carbs = vcb, fat = vf\<rparr> st)"
  using assms by (simp add: log_food_def resolve_def get_from_cache_def draft_nutrition_def)

lemma scale_and_confirm_numbers:
  assumes "as_number qv = Some q" and "as_numbers raw = Some n"
  shows "scale_and_confirm hit raw fi qv qu confirm_input now st =
         confirm_and_save hit n fi q qu confirm_input now st"
  using assms by (simp add: scale_and_confirm_def)

lemma as_numbers_Some:
  assumes "as_number vc = Some c" "as_number vp = Some p" "as_number vcb = Some cb"
    "as_number vf = Some f"
  shows "as_numbers \<lparr>calories = vc, protein = vp, carbs = vcb, fat = vf\<rparr> =
         Some \<lparr>calories = c, protein = p, carbs = cb, fat = f\<rparr>"
  using assms by (simp add: as_numbers_def)

lemma scale_and_confirm_cases:
  "(\<forall>ci. scale_and_confirm hit raw fi qv qu ci now st = (st, Could_not_process TypeError))
   \<or> (\<exists>q n. as_number qv = Some q \<and> as_numbers raw = Some n \<and>
         (\<forall>ci. scale_and_confirm hit raw fi qv qu ci now st =
                confirm_and_save hit n fi q qu ci now st))"
  by (auto simp: scale_and_confirm_def split: option.splits)

lemma confirm_and_save_answer:
  "confirm_and_save hit n fi q qu (Some answer) now st =
     (if lower answer = ''y''
      then (save_entry (calculate_nutrition fi q qu n) now st,
            Entry_saved \<lparr>cache_hit = hit, nutrition_per_100g = n,
                          calculated = calculate_nutrition fi q qu n\<rparr>)
      else (st, Entry_discarded \<lparr>cache_hit = hit, nutrition_per_100g = n,
                          calculated = calculate_nutrition fi q qu n\<rparr>))"
  by (simp add: confirm_and_save_def Let_def)

lemma confirm_and_save_cache:
  "cache (fst (confirm_and_save hit n fi q qu confirm_input now st)) = cache st"
  by (simp add: confirm_and_save_def Let_def save_entry_def split: option.splits)

lemma resolve_cases:
  "(\<exists>e st1. food_log st1 = food_log st \<and> food_log_seq st1 = food_log_seq st \<and>
        (\<forall>ci. resolve d ci now st = (st1, Could_not_process e)))
   \<or> (\<exists>hit n fi q qu st1. food_log st1 = food_log st \<and> food_log_seq st1 = food_log_seq st \<and>
         (\<forall>ci. resolve d ci now st = confirm_and_save hit n fi q qu ci now st1))"
proof (cases "rd_food_item d")
  case None
  then show ?thesis by (auto simp: resolve_def)
next
  case (Some fi)
  note fi = Some
  show ?thesis
  proof (cases "rd_quantity d")
    case None
    with fi show ?thesis by (auto simp: resolve_def)
  next
    case (Some qv)
    note qv = Some
    show ?thesis
    proof (cases "rd_quantity_unit d")
      case None
      with fi qv show ?thesis by (auto simp: resolve_def)
    next
      case (Some qu)
      note qu = Some
      have "\<exists>hit raw st1. food_log st1 = food_log st \<and> food_log_seq st1 = food_log_seq st \<and>
              (\<forall>ci. resolve d ci now st = scale_and_confirm hit raw fi qv qu ci now st1)
            \<or> (\<exists>e. \<forall>ci. resolve d ci now st = (st, Could_not_process e))"
      proof (cases "cache st fi")
        case (Some raw)
        have "\<forall>ci. resolve d ci now st = scale_and_confirm True raw fi qv qu ci now st"
          using fi qv qu Some by (simp add: resolve_def get_from_cache_def)
        then show ?thesis by blast
      next
        case None
        show ?thesis
        proof (cases "draft_nutrition d")
          case (Inl e)
          with fi qv qu None have "\<forall>ci. resolve d ci now st = (st, Could_not_process e)"
            by (simp add: resolve_def get_from_cache_def)
          then show ?thesis by blast
        next
          case (Inr raw)
          have "\<forall>ci. resolve d ci now st =
                  scale_and_confirm False raw fi qv qu ci now (add_to_cache fi raw st)"
            using fi qv qu None Inr by (simp add: resolve_def get_from_cache_def)
          moreover have "food_log (add_to_cache fi raw st) = food_log st"
            "food_log_seq (add_to_cache fi raw st) = food_log_seq st"
            by (simp_all add: add_to_cache_def)
          ultimately show ?thesis by blast
        qed
      qed
      then consider (scale) hit raw st1 where "food_log st1 = food_log st"
          "food_log_seq st1 = food_log_seq st"
          "\<forall>ci. resolve d ci now st = scale_and_confirm hit raw fi qv qu ci now st1"
        | (err) e where "\<forall>ci. resolve d ci now st = (st, Could_not_process e)"
        by blast
      then show ?thesis
      proof cases
        case scale
        from scale_and_confirm_cases[of hit raw fi qv qu now st1] show ?thesis
        proof
          assume "\<forall>ci. scale_and_confirm hit raw fi qv qu ci now st1 =
                    (st1, Could_not_process TypeError)"
          with scale have "\<forall>ci. resolve d ci now st = (st1, Could_not_process TypeError)"
            by simp
          with scale(1,2) show ?thesis by blast
        next
          assume "\<exists>q n. as_number qv = Some q \<and> as_numbers raw = Some n \<and>
            (\<forall>ci. scale_and_confirm hit raw fi qv qu ci now st1 =
                   confirm_and_save hit n fi q qu ci now st1)"
          then obtain q n where
            "\<forall>ci. scale_and_confirm hit raw fi qv qu ci now st1 =
                   confirm_and_save hit n fi q qu ci now st1"
            by blast
          with scale have "\<forall>ci. resolve d ci now st = confirm_and_save hit n fi q qu ci now st1"
            by simp
          with scale(1,2) show ?thesis by blast
        qed
      next
        case err
        then show ?thesis by blast
      qed
    qed
  qed
qed

lemma log_food_cases:
  "log_food json_loads chain text_input confirm_input now st = (st, LLM_not_initialized)
   \<or> (\<exists>e st1. food_log st1 = food_log st \<and> food_log_seq st1 = food_log_seq st \<and>
         log_food json_loads chain text_input confirm_input now st = (st1, Could_not_process e))
   \<or> (\<exists>hit n fi q qu st1. food_log st1 = food_log st \<and> food_log_seq st1 = food_log_seq st \<and>
         (\<forall>ci. log_food json_loads chain text_input ci now st =
            confirm_and_save hit n fi q qu ci now st1))"
proof (cases chain)
  case None
  then show ?thesis by (simp add: log_food_def)
next
  case (Some invoke)
  show ?thesis
  proof (cases "invoke text_input")
    case Chain_raised
    with Some show ?thesis by (auto simp: log_food_def)
  next
    case (Chain_returned s)
    show ?thesis
    proof (cases "json_loads (clean_response s)")
      case None
      with Some Chain_returned show ?thesis by (auto simp: log_food_def)
    next
      case (Some v)
      show ?thesis
      proof (cases v)
        case Not_a_dict
        with \<open>chain = Some invoke\<close> Chain_returned Some show ?thesis
          by (auto simp: log_food_def)
      next
        case (Dict d)
        have lf: "\<And>ci. log_food json_loads chain text_input ci now st = resolve d ci now st"
          using \<open>chain = Some invoke\<close> Chain_returned Some Dict by (simp add: log_food_def)
        from resolve_cases[of st d now] show ?thesis unfolding lf by blast
      qed
    qed
  qed
qed

lemma log_food_accepted:
  assumes "log_food json_loads chain text_input (Some answer) now st = (st', out)"
    and "lower answer = ''y''"
  shows "out \<noteq> Entry_discarded r"
proof -
  from log_food_cases[of json_loads chain text_input "Some answer" now st]
  consider "out = LLM_not_initialized" | e where "out = Could_not_process e"
    | hit n fi q qu st1 where "log_food json_loads chain text_input (Some answer) now st =
            confirm_and_save hit n fi q qu (Some answer) now st1"
    using assms(1) by fastforce
  then show ?thesis
  proof cases
    case 3
    with assms show ?thesis by (auto simp: confirm_and_save_answer)
  qed auto
qed

lemma log_food_shown:
  assumes "log_food json_loads chain text_input confirm_input now st = (st', out)"
    and "out = Entry_saved r \<or> out = Entry_discarded r"
  shows "\<exists>raw. cache st' (food_item (calculated r)) = Some raw
           \<and> as_numbers raw = Some (nutrition_per_100g r)"
proof -
  obtain d where res: "resolve d confirm_input now st = (st', out)"
    using assms by (auto simp: log_food_def split: option.splits chain_reply.splits loaded.splits)
  from res assms(2) obtain hit raw fi qv qu st_mid where
    run: "scale_and_confirm hit raw fi qv qu confirm_input now st_mid = (st', out)"
    and mid: "cache st_mid fi = Some raw"
    by (auto simp: resolve_def get_from_cache_def add_to_cache_def
        split: option.splits sum.splits)
  from scale_and_confirm_shown[OF run assms(2)] obtain q where
    q: "as_numbers raw = Some (nutrition_per_100g r)"
      "calculated r = calculate_nutrition fi q qu (nutrition_per_100g r)"
      "confirm_and_save hit (nutrition_per_100g r) fi q qu confirm_input now st_mid = (st', out)"
    by blast
  have "cache st' = cache st_mid"
    using confirm_and_save_cache[of hit "nutrition_per_100g r" fi q qu confirm_input now st_mid]
      q(3) by simp
  moreover have "food_item (calculated r) = fi"
    using q(2) by (simp add: calculate_nutrition_def)
  ultimately show ?thesis using mid q(1) by simp
qed

subsection \<open>C2: the cache takes precedence\<close>

text \<open>
  Claim C2. Take a resolution that showed an estimation for a food item, and a second
  resolution for the same food item in the state the first one left. The second one is
  a cache hit: its profile is the profile of the first, whatever the second reply
  estimated per 100 g, its values are that profile scaled by the second quantity, and
  the cache stays as it is. On a cache miss the estimates of the reply are the profile
  used, and the cache maps the food item to them afterwards. The quantity and the
  estimates are values that Python takes as numbers.
\<close>

theorem cache_precedence:
  "(\<forall>json_loads1 chain1 text1 confirm1 now1 st st1 out1 r1
      json_loads2 invoke2 text2 s2 d2 v2 q2 qu2 answer2 now2 st2 out2.
      log_food json_loads1 chain1 text1 confirm1 now1 st = (st1, out1) \<longrightarrow>
      (out1 = Entry_saved r1 \<or> out1 = Entry_discarded r1) \<longrightarrow>
      invoke2 text2 = Chain_returned s2 \<longrightarrow>
      json_loads2 (clean_response s2) = Some (Dict d2) \<longrightarrow>
      rd_food_item d2 = Some (food_item (calculated r1)) \<longrightarrow>
      rd_quantity d2 = Some v2 \<longrightarrow> as_number v2 = Some q2 \<longrightarrow>
      rd_quantity_unit d2 = Some qu2 \<longrightarrow>
      log_food json_loads2 (Some invoke2) text2 (Some answer2) now2 st1 = (st2, out2) \<longrightarrow>
      (\<exists>r2. (out2 = Entry_saved r2 \<or> out2 = Entry_discarded r2)
          \<and> cache_hit r2
          \<and> nutrition_per_100g r2 = nutrition_per_100g r1
          \<and> calculated r2 =
              calculate_nutrition (food_item (calculated r1)) q2 qu2 (nutrition_per_100g r1))
      \<and> cache st2 = cache st1)
   \<and> (\<forall>json_loads invoke text_input s d fi v q qu vc vp vcb vf c p cb f answer now st st' out.
      invoke text_input = Chain_returned s \<longrightarrow>
      json_loads (clean_response s) = Some (Dict d) \<longrightarrow>
      rd_food_item d = Some fi \<longrightarrow>
      rd_quantity d = Some v \<longrightarrow> as_number v = Some q \<longrightarrow>
      rd_quantity_unit d = Some qu \<longrightarrow>
      rd_calories_per_100g d = Some vc \<longrightarrow> as_number vc = Some c \<longrightarrow>
      rd_protein_per_100g d = Some vp \<longrightarrow> as_number vp = Some p \<longrightarrow>
      rd_carbs_per_100g d = Some vcb \<longrightarrow> as_number vcb = Some cb \<longrightarrow>
      rd_fat_per_100g d = Some vf \<longrightarrow> as_number vf = Some f \<longrightarrow>
      cache st fi = None \<longrightarrow>
      log_food json_loads (Some invoke) text_input (Some answer) now st = (st', out) \<longrightarrow>
      (\<exists>r. (out = Entry_saved r \<or> out = Entry_discarded r)
          \<and> \<not> cache_hit r
          \<and> nutrition_per_100g r = \<lparr>calories = c, protein = p, carbs = cb, fat = f\<rparr>)
      \<and> cache st' = (cache st)(fi \<mapsto> \<lparr>calories = vc, protein = vp, carbs = vcb, fat = vf\<rparr>))"
proof (intro conjI allI impI)
  fix json_loads1 chain1 text1 confirm1 now1 st st1 out1 and r1 :: resolved
    and json_loads2 :: "string \<Rightarrow> loaded option"
    and invoke2 :: "string \<Rightarrow> chain_reply" and text2 s2 :: string
    and d2 :: response_data and v2 :: json and q2 :: real and qu2 answer2 :: string
    and now2 :: datetime and st2 :: state and out2 :: log_result
  assume first: "log_food json_loads1 chain1 text1 confirm1 now1 st = (st1, out1)"
    "out1 = Entry_saved r1 \<or> out1 = Entry_discarded r1"
  assume second: "invoke2 text2 = Chain_returned s2" "json_loads2 (clean_response s2) = Some (Dict d2)"
    "rd_food_item d2 = Some (food_item (calculated r1))" "rd_quantity d2 = Some v2"
    "rd_quantity_unit d2 = Some qu2"
  assume v2: "as_number v2 = Some q2"
  assume run2: "log_food json_loads2 (Some invoke2) text2 (Some answer2) now2 st1 = (st2, out2)"
  from log_food_shown[OF first] obtain raw where
    cached: "cache st1 (food_item (calculated r1)) = Some raw"
    and raw: "as_numbers raw = Some (nutrition_per_100g r1)"
    by blast
  have "log_food json_loads2 (Some invoke2) text2 (Some answer2) now2 st1 =
      scale_and_confirm True raw (food_item (calculated r1)) v2 qu2 (Some answer2) now2 st1"
    using second cached by (rule log_food_hit)
  then have eq: "log_food json_loads2 (Some invoke2) text2 (Some answer2) now2 st1 =
      confirm_and_save True (nutrition_per_100g r1) (food_item (calculated r1)) q2 qu2
        (Some answer2) now2 st1"
    by (simp add: scale_and_confirm_numbers[OF v2 raw])
  from run2 show "\<exists>r2. (out2 = Entry_saved r2 \<or> out2 = Entry_discarded r2)
          \<and> cache_hit r2
          \<and> nutrition_per_100g r2 = nutrition_per_100g r1
          \<and> calculated r2 =
              calculate_nutrition (food_item (calculated r1)) q2 qu2 (nutrition_per_100g r1)"
    unfolding eq by (auto simp: confirm_and_save_answer split: if_splits)
  from run2 show "cache st2 = cache st1"
    unfolding eq using confirm_and_save_cache[of True "nutrition_per_100g r1"
        "food_item (calculated r1)" q2 qu2 "Some answer2" now2 st1]
    by simp
next
  fix json_loads :: "string \<Rightarrow> loaded option"
    and invoke :: "string \<Rightarrow> chain_reply" and text_input s :: string
    and d :: response_data and fi qu answer :: string and v vc vp vcb vf :: json
    and q c p cb f :: real
    and now :: datetime and st st' :: state and out :: log_result
  assume h: "invoke text_input = Chain_returned s" "json_loads (clean_response s) = Some (Dict d)"
    "rd_food_item d = Some fi" "rd_quantity d = Some v" "rd_quantity_unit d = Some qu"
    "rd_calories_per_100g d = Some vc" "rd_protein_per_100g d = Some vp"
    "rd_carbs_per_100g d = Some vcb" "rd_fat_per_100g d = Some vf"
    "cache st fi = None"
  assume v: "as_number v = Some q"
  assume n: "as_number vc = Some c" "as_number vp = Some p" "as_number vcb = Some cb"
    "as_number vf = Some f"
  assume run: "log_food json_loads (Some invoke) text_input (Some answer) now st = (st', out)"
  let ?raw = "\<lparr>calories = vc, protein = vp, carbs = vcb, fat = vf\<rparr>"
  let ?n = "\<lparr>calories = c, protein = p, carbs = cb, fat = f\<rparr>"
  have "log_food json_loads (Some invoke) text_input (Some answer) now st =
         scale_and_confirm False ?raw fi v qu (Some answer) now (add_to_cache fi ?raw st)"
    using h by (rule log_food_miss)
  then have eq: "log_food json_loads (Some invoke) text_input (Some answer) now st =
         confirm_and_save False ?n fi q qu (Some answer) now (add_to_cache fi ?raw st)"
    by (simp add: scale_and_confirm_numbers[OF v as_numbers_Some[OF n]])
  from run show "\<exists>r. (out = Entry_saved r \<or> out = Entry_discarded r)
          \<and> \<not> cache_hit r
          \<and> nutrition_per_100g r = \<lparr>calories = c, protein = p, carbs = cb, fat = f\<rparr>"
    unfolding eq by (auto simp: confirm_and_save_answer split: if_splits)
  from run show "cache st' = (cache st)(fi \<mapsto> ?raw)"
    unfolding eq using confirm_and_save_cache[of False ?n fi q qu "Some answer" now
        "add_to_cache fi ?raw st"]
    by (simp add: add_to_cache_def)
qed

theorem cache_precedence_witness:
  "\<exists>st1 r1 st2 r2.
     log_food example_loads (chain_replying example_str) ''comi 175g de bolo de banana''
       (Some ''n'') example_now init_db = (st1, Entry_discarded r1)
   \<and> log_food
       (\<lambda>s. if s = ''{\"food_item\": \"bolo de banana\", \"quantity\": 100, \"quantity_unit\": \"g\", \"calories_per_100g\": 410, \"protein_per_100g\": 4, \"carbs_per_100g\": 40, \"fat_per_100g\": 14}''
             then Some (Dict (example_json\<lparr>rd_quantity := Some (JNumber 100),
                          rd_calories_per_100g := Some (JNumber 410)\<rparr>))
             else None)
       (Some (\<lambda>t. Chain_returned ''{\"food_item\": \"bolo de banana\", \"quantity\": 100, \"quantity_unit\": \"g\", \"calories_per_100g\": 410, \"protein_per_100g\": 4, \"carbs_per_100g\": 40, \"fat_per_100g\": 14}''))
       ''mais 100g de bolo de banana'' (Some ''y'') example_now st1 = (st2, Entry_saved r2)
   \<and> cache_hit r2
   \<and> nutrition_per_100g r2 = nutrition_per_100g r1
   \<and> nutrition_per_100g r2 = \<lparr>calories = 300, protein = 4, carbs = 40, fat = 14\<rparr>
   \<and> calories (calculated r2) = 300
   \<and> cache st2 = cache st1"
proof -
  let ?reply2 = "''{\"food_item\": \"bolo de banana\", \"quantity\": 100, \"quantity_unit\": \"g\", \"calories_per_100g\": 410, \"protein_per_100g\": 4, \"carbs_per_100g\": 40, \"fat_per_100g\": 14}''"
  let ?d2 = "example_json\<lparr>rd_quantity := Some (JNumber 100),
                          rd_calories_per_100g := Some (JNumber 410)\<rparr>"
  let ?loads2 = "\<lambda>s. if s = ?reply2 then Some (Dict ?d2) else None"
  let ?invoke2 = "\<lambda>t::string. Chain_returned ?reply2"
  let ?r1 = "\<lparr>cache_hit = False,
           nutrition_per_100g = \<lparr>calories = 300, protein = 4, carbs = 40, fat = 14\<rparr>,
           calculated = \<lparr>calories = 525, protein = 7, carbs = 70, fat = 24.5,
                        food_item = ''bolo de banana'', quantity = 175, quantity_unit = ''g''\<rparr>\<rparr>"
  obtain st1 where run1: "log_food example_loads (chain_replying example_str)
      ''comi 175g de bolo de banana'' (Some ''n'') example_now init_db = (st1, Entry_discarded ?r1)"
    by (simp add: log_food_eval example_eval)
  obtain st2 out2 where run2: "log_food ?loads2 (Some ?invoke2) ''mais 100g de bolo de banana''
      (Some ''y'') example_now st1 = (st2, out2)"
    by (cases "log_food ?loads2 (Some ?invoke2) ''mais 100g de bolo de banana''
      (Some ''y'') example_now st1") blast
  have shown: "Entry_discarded ?r1 = Entry_saved ?r1 \<or> Entry_discarded ?r1 = Entry_discarded ?r1"
    by simp
  have inv: "?invoke2 ''mais 100g de bolo de banana'' = Chain_returned ?reply2" by simp
  have loads: "?loads2 (clean_response ?reply2) = Some (Dict ?d2)" by (simp add: clean_response_def)
  have fi: "rd_food_item ?d2 = Some (food_item (calculated ?r1))" by (simp add: example_json_def)
  have q: "rd_quantity ?d2 = Some (JNumber 100)" by simp
  have qn: "as_number (JNumber 100) = Some 100" by simp
  have qu: "rd_quantity_unit ?d2 = Some ''g''" by (simp add: example_json_def)
  from cache_precedence[THEN conjunct1, rule_format, OF run1 shown inv loads fi q qn qu run2]
  obtain r2 where r2: "out2 = Entry_saved r2 \<or> out2 = Entry_discarded r2" "cache_hit r2"
    "nutrition_per_100g r2 = nutrition_per_100g ?r1"
    "calculated r2 = calculate_nutrition (food_item (calculated ?r1)) 100 ''g'' (nutrition_per_100g ?r1)"
    "cache st2 = cache st1"
    by blast
  have "\<forall>r. out2 \<noteq> Entry_discarded r"
    using log_food_accepted[OF run2] by (simp add: lower_answers)
  with r2(1) have saved: "out2 = Entry_saved r2" by blast
  have "calories (calculated r2) = 300" using r2(4) by (simp add: calculate_nutrition_def)
  with run1 run2 saved r2 show ?thesis by (intro exI[of _ st1] exI[of _ ?r1] exI[of _ st2] exI[of _ r2]) simp
qed

subsection \<open>C3: the confirmation gate\<close>

text \<open>
  Claim C3. An answer other than \<^verbatim>\<open>y\<close> or \<^verbatim>\<open>Y\<close> leaves \<^verbatim>\<open>food_log\<close> as it is and nothing
  is saved. After the answer \<^verbatim>\<open>y\<close> or \<^verbatim>\<open>Y\<close> nothing is discarded: an entry that is saved
  is exactly one new row, with the food item, quantity, unit and scaled values of the
  estimation shown, and a call that fails before the question adds no row. The
  estimation shown does not depend on the answer: where one answer leads to a saved or
  a discarded entry, every accepting answer saves that entry and every other answer
  discards it.
\<close>

theorem confirmation_gate:
  assumes "log_food json_loads chain text_input (Some answer) now st = (st', out)"
  shows "(lower answer \<noteq> ''y'' \<longrightarrow> food_log st' = food_log st \<and> (\<forall>r. out \<noteq> Entry_saved r))
       \<and> (lower answer = ''y'' \<longrightarrow>
            (\<forall>r. out \<noteq> Entry_discarded r)
          \<and> (\<forall>r. out = Entry_saved r \<longrightarrow>
                food_log st' = food_log st @
                  [\<lparr>calories = calories (calculated r), protein = protein (calculated r),
                    carbs = carbs (calculated r), fat = fat (calculated r),
                    food_item = food_item (calculated r), quantity = quantity (calculated r),
                    quantity_unit = quantity_unit (calculated r),
                    row_id = next_id st, timestamp = isoformat now\<rparr>])
          \<and> ((\<forall>r. out \<noteq> Entry_saved r) \<longrightarrow> food_log st' = food_log st))
       \<and> (\<forall>r answer2. out = Entry_saved r \<or> out = Entry_discarded r \<longrightarrow>
            snd (log_food json_loads chain text_input (Some answer2) now st) =
              (if lower answer2 = ''y'' then Entry_saved r else Entry_discarded r))"
proof -
  from log_food_cases[of json_loads chain text_input "Some answer" now st]
  consider (none) "log_food json_loads chain text_input (Some answer) now st = (st, LLM_not_initialized)"
    | (err) e st1 where "food_log st1 = food_log st"
        "log_food json_loads chain text_input (Some answer) now st = (st1, Could_not_process e)"
    | (ask) hit n fi q qu st1 where "food_log st1 = food_log st" "food_log_seq st1 = food_log_seq st"
        "\<forall>ci. log_food json_loads chain text_input ci now st =
            confirm_and_save hit n fi q qu ci now st1"
    by blast
  then show ?thesis
  proof cases
    case none
    with assms show ?thesis by auto
  next
    case err
    from err(2) assms have "st' = st1" "out = Could_not_process e" by simp_all
    with err(1) show ?thesis by simp
  next
    case ask
    have nid: "next_id st1 = next_id st" using ask(1,2) by (simp add: next_id_def)
    from ask(3) assms have
      "confirm_and_save hit n fi q qu (Some answer) now st1 = (st', out)" by simp
    then show ?thesis
      using ask(1) nid
      by (auto simp: confirm_and_save_answer ask(3) save_entry_def calculate_nutrition_def
          split: if_splits)
  qed
qed


theorem confirmation_gate_witness:
  "log_food example_loads (chain_replying example_str) ''comi 175g de bolo de banana''
     (Some ''n'') example_now init_db
     = (init_db\<lparr>cache := [''bolo de banana'' \<mapsto>
                      \<lparr>calories = JNumber 300, protein = JNumber 4, carbs = JNumber 40,
                       fat = JNumber 14\<rparr>]\<rparr>,
        Entry_discarded
          \<lparr>cache_hit = False,
           nutrition_per_100g = \<lparr>calories = 300, protein = 4, carbs = 40, fat = 14\<rparr>,
           calculated = \<lparr>calories = 525, protein = 7, carbs = 70, fat = 24.5,
                        food_item = ''bolo de banana'', quantity = 175, quantity_unit = ''g''\<rparr>\<rparr>)
   \<and> lower ''n'' \<noteq> ''y''
   \<and> food_log (fst (log_food example_loads (chain_replying example_str)
        ''comi 175g de bolo de banana'' (Some ''n'') example_now init_db)) = []
   \<and> snd (log_food example_loads (chain_replying example_str)
        ''comi 175g de bolo de banana'' (Some ''Y'') example_now init_db)
      = Entry_saved
          \<lparr>cache_hit = False,
           nutrition_per_100g = \<lparr>calories = 300, protein = 4, carbs = 40, fat = 14\<rparr>,
           calculated = \<lparr>calories = 525, protein = 7, carbs = 70, fat = 24.5,
                        food_item = ''bolo de banana'', quantity = 175, quantity_unit = ''g''\<rparr>\<rparr>"
proof -
  have run: "log_food example_loads (chain_replying example_str) ''comi 175g de bolo de banana''
     (Some ''n'') example_now init_db
     = (init_db\<lparr>cache := [''bolo de banana'' \<mapsto>
                      \<lparr>calories = JNumber 300, protein = JNumber 4, carbs = JNumber 40,
                       fat = JNumber 14\<rparr>]\<rparr>,
        Entry_discarded
          \<lparr>cache_hit = False,
           nutrition_per_100g = \<lparr>calories = 300, protein = 4, carbs = 40, fat = 14\<rparr>,
           calculated = \<lparr>calories = 525, protein = 7, carbs = 70, fat = 24.5,
                        food_item = ''bolo de banana'', quantity = 175, quantity_unit = ''g''\<rparr>\<rparr>)"
    by (simp add: log_food_eval example_eval)
  have rej: "lower ''n'' \<noteq> ''y''" by (simp add: lower_answers)
  note gate = confirmation_gate[OF run]
  from gate rej have "food_log (init_db\<lparr>cache := [''bolo de banana'' \<mapsto>
                      \<lparr>calories = JNumber 300, protein = JNumber 4, carbs = JNumber 40,
                       fat = JNumber 14\<rparr>]\<rparr>) = food_log init_db"
    by blast
  moreover from gate have "snd (log_food example_loads (chain_replying example_str)
        ''comi 175g de bolo de banana'' (Some ''Y'') example_now init_db)
      = (if lower ''Y'' = ''y'' then Entry_saved
          \<lparr>cache_hit = False,
           nutrition_per_100g = \<lparr>calories = 300, protein = 4, carbs = 40, fat = 14\<rparr>,
           calculated = \<lparr>calories = 525, protein = 7, carbs = 70, fat = 24.5,
                        food_item = ''bolo de banana'', quantity = 175, quantity_unit = ''g''\<rparr>\<rparr>
         else Entry_discarded
          \<lparr>cache_hit = False,
           nutrition_per_100g = \<lparr>calories = 300, protein = 4, carbs = 40, fat = 14\<rparr>,
           calculated = \<lparr>calories = 525, protein = 7, carbs = 70, fat = 24.5,
                        food_item = ''bolo de banana'', quantity = 175, quantity_unit = ''g''\<rparr>\<rparr>)"
    by blast
  ultimately show ?thesis using run rej by (simp add: lower_answers init_db_def)
qed

subsection \<open>C4: a rejected entry stays in the cache\<close>

text \<open>
  Claim C4. On a cache miss the profile of the reply is stored before the question is
  asked, and an answer that rejects the entry leaves it there: the entry is discarded,
  \<^verbatim>\<open>food_log\<close> is unchanged, and the cache maps the food item to the profile of the reply.
  The question is reached when the quantity and the estimates are numbers.
\<close>

theorem rejected_entry_stays_cached:
  assumes "invoke text_input = Chain_returned s" and "json_loads (clean_response s) = Some (Dict d)"
    and "rd_food_item d = Some fi"
    and "rd_quantity d = Some v" and "rd_quantity_unit d = Some qu"
    and "rd_calories_per_100g d = Some vc" and "rd_protein_per_100g d = Some vp"
    and "rd_carbs_per_100g d = Some vcb" and "rd_fat_per_100g d = Some vf"
    and "cache st fi = None"
    and "as_number v = Some q"
    and "as_number vc = Some c" and "as_number vp = Some p"
    and "as_number vcb = Some cb" and "as_number vf = Some f"
    and "lower answer \<noteq> ''y''"
    and "log_food json_loads (Some invoke) text_input (Some answer) now st = (st', out)"
  shows "out = Entry_discarded
           \<lparr>cache_hit = False,
            nutrition_per_100g = \<lparr>calories = c, protein = p, carbs = cb, fat = f\<rparr>,
            calculated = calculate_nutrition fi q qu \<lparr>calories = c, protein = p, carbs = cb, fat = f\<rparr>\<rparr>
       \<and> cache st' fi = Some \<lparr>calories = vc, protein = vp, carbs = vcb, fat = vf\<rparr>
       \<and> food_log st' = food_log st"
proof -
  let ?raw = "\<lparr>calories = vc, protein = vp, carbs = vcb, fat = vf\<rparr>"
  let ?n = "\<lparr>calories = c, protein = p, carbs = cb, fat = f\<rparr>"
  have "log_food json_loads (Some invoke) text_input (Some answer) now st =
         scale_and_confirm False ?raw fi v qu (Some answer) now (add_to_cache fi ?raw st)"
    using assms(1-10) by (rule log_food_miss)
  then have "log_food json_loads (Some invoke) text_input (Some answer) now st =
         confirm_and_save False ?n fi q qu (Some answer) now (add_to_cache fi ?raw st)"
    by (simp add: scale_and_confirm_numbers[OF assms(11) as_numbers_Some[OF assms(12-15)]])
  with assms(16,17) show ?thesis
    by (auto simp: confirm_and_save_answer add_to_cache_def)
qed

theorem rejected_entry_stays_cached_witness:
  "lower ''no'' \<noteq> ''y'' \<and> cache init_db ''bolo de banana'' = None
   \<and> cache (fst (log_food example_loads (chain_replying example_str)
        ''comi 175g de bolo de banana'' (Some ''no'') example_now init_db)) ''bolo de banana''
      = Some \<lparr>calories = JNumber 300, protein = JNumber 4, carbs = JNumber 40,
               fat = JNumber 14\<rparr>
   \<and> food_log (fst (log_food example_loads (chain_replying example_str)
        ''comi 175g de bolo de banana'' (Some ''no'') example_now init_db)) = []"
proof -
  have rej: "lower ''no'' \<noteq> ''y''" by code_simp
  have miss: "cache init_db ''bolo de banana'' = None" by (simp add: init_db_def)
  have "cache (fst (log_food example_loads (Some (\<lambda>text_input. Chain_returned example_str))
        ''comi 175g de bolo de banana'' (Some ''no'') example_now init_db)) ''bolo de banana''
      = Some \<lparr>calories = JNumber 300, protein = JNumber 4, carbs = JNumber 40,
               fat = JNumber 14\<rparr>
     \<and> food_log (fst (log_food example_loads (Some (\<lambda>text_input. Chain_returned example_str))
        ''comi 175g de bolo de banana'' (Some ''no'') example_now init_db)) = food_log init_db"
    using rejected_entry_stays_cached[of "\<lambda>text_input. Chain_returned example_str"
        "''comi 175g de bolo de banana''" example_str example_loads example_json
        "''bolo de banana''" "JNumber 175" "''g''" "JNumber 300" "JNumber 4" "JNumber 40"
        "JNumber 14" init_db 175 300 4 40 14 "''no''" example_now
        "fst (log_food example_loads (Some (\<lambda>text_input. Chain_returned example_str))
          ''comi 175g de bolo de banana'' (Some ''no'') example_now init_db)"
        "snd (log_food example_loads (Some (\<lambda>text_input. Chain_returned example_str))
          ''comi 175g de bolo de banana'' (Some ''no'') example_now init_db)"]
      rej miss
    by (simp add: example_loads_def clean_response_def example_str_def example_json_def)
  then show ?thesis using rej miss by (simp add: chain_replying_def init_db_def)
qed

subsection \<open>The summary of a day\<close>

lemma select_sums_empty:
  "rows_between st s e = [] \<Longrightarrow> select_sums st s e = (None, None, None, None)"
  by (simp add: select_sums_def sql_sum_def)

lemma select_sums_rows:
  "rows_between st s e \<noteq> [] \<Longrightarrow>
   select_sums st s e =
     (Some (sum_list (map calories (rows_between st s e))),
      Some (sum_list (map protein (rows_between st s e))),
      Some (sum_list (map carbs (rows_between st s e))),
      Some (sum_list (map fat (rows_between st s e))))"
  by (simp add: select_sums_def sql_sum_def Let_def)

lemma get_todays_summary_empty:
  assumes "today_range now = Some (s, e)" and "rows_between st s e = []"
  shows "get_todays_summary now now_save st = (st, Inr No_entries_for_today)"
  using assms by (simp add: get_todays_summary_def select_sums_empty)

lemma get_todays_summary_rows:
  assumes "today_range now = Some (s, e)" and "rows_between st s e \<noteq> []"
  shows "get_todays_summary now now_save st =
     (st\<lparr>daily_summary := (daily_summary st)(date_isoformat now_save \<mapsto>
          (sum_list (map calories (rows_between st s e)),
           sum_list (map protein (rows_between st s e)),
           sum_list (map carbs (rows_between st s e)),
           sum_list (map fat (rows_between st s e))))\<rparr>,
      Inr (Totals (Some (sum_list (map calories (rows_between st s e))))
                  (Some (sum_list (map protein (rows_between st s e))))
                  (Some (sum_list (map carbs (rows_between st s e))))
                  (Some (sum_list (map fat (rows_between st s e))))))"
  using assms by (simp add: get_todays_summary_def select_sums_rows save_todays_summary_def)

lemma main_get_todays_summary_empty:
  assumes "today_range now = Some (s, e)" and "rows_between st s e = []"
  shows "main_get_todays_summary now st = (st, Inr No_entries_for_today)"
  using assms by (simp add: main_get_todays_summary_def select_sums_empty)

lemma main_get_todays_summary_rows:
  assumes "today_range now = Some (s, e)" and "rows_between st s e \<noteq> []"
  shows "main_get_todays_summary now st =
     (st, Inr (Totals (Some (sum_list (map calories (rows_between st s e))))
                  (Some (sum_list (map protein (rows_between st s e))))
                  (Some (sum_list (map carbs (rows_between st s e))))
                  (Some (sum_list (map fat (rows_between st s e))))))"
  using assms by (simp add: main_get_todays_summary_def select_sums_rows)



lemmas range_eval = today_range_def today_start_def add_one_day_def days_in_month_def
  is_leap_def rows_between_def in_range_def text_le_def

lemma example_today:
  "today_range example_now = Some (''2024-05-31T00:00:00'', ''2024-06-01T00:00:00'')"
  by (simp add: range_eval text_eval example_now_def)

lemma get_summary_for_date_reads:
  "daily_summary st1 = daily_summary st2 \<Longrightarrow>
   snd (get_summary_for_date date_str st1) = snd (get_summary_for_date date_str st2)"
  by (simp add: get_summary_for_date_def split: option.splits)

lemma remove_last_entry_last_of_day:
  assumes "today_range now = Some (s, e)" and "today_range now2 = Some (s, e)"
    and "last_by_id (rows_between st s e) = Some r"
    and "rows_between (delete_by_id (row_id r) st) s e = []"
  shows "remove_last_entry now now2 now3 st =
           (delete_by_id (row_id r) st,
            Inr (Entry_removed (row_id r) (food_item r) (quantity r) (quantity_unit r)
                   No_entries_for_today))"
  using assms get_todays_summary_empty[OF assms(2,4), of now3]
  by (simp add: remove_last_entry_def)

lemmas summary_eval = get_todays_summary_def select_sums_def sql_sum_def save_todays_summary_def
  get_summary_for_date_def strptime_ymd_def parse_year_def parse_month_def parse_day_def
  digit_value_def valid_date_def

lemma example_logged:
  "fst (log_food example_loads (chain_replying example_str) ''comi 175g de bolo de banana''
     (Some ''y'') example_now init_db)
   = \<lparr>food_log = [\<lparr>calories = 525, protein = 7, carbs = 70, fat = 24.5,
                    food_item = ''bolo de banana'', quantity = 175, quantity_unit = ''g'',
                    row_id = 1, timestamp = ''2024-05-31T12:30:05''\<rparr>],
       food_log_seq = 1, daily_summary = Map.empty,
       cache = [''bolo de banana'' \<mapsto>
         \<lparr>calories = JNumber 300, protein = JNumber 4, carbs = JNumber 40, fat = JNumber 14\<rparr>]\<rparr>"
  by (simp add: log_food_eval example_eval text_eval)

lemma example_summarised:
  "fst (get_todays_summary example_now example_now
     (fst (log_food example_loads (chain_replying example_str) ''comi 175g de bolo de banana''
        (Some ''y'') example_now init_db)))
   = \<lparr>food_log = [\<lparr>calories = 525, protein = 7, carbs = 70, fat = 24.5,
                    food_item = ''bolo de banana'', quantity = 175, quantity_unit = ''g'',
                    row_id = 1, timestamp = ''2024-05-31T12:30:05''\<rparr>],
       food_log_seq = 1,
       daily_summary = [''2024-05-31'' \<mapsto> (525, 7, 70, 24.5)],
       cache = [''bolo de banana'' \<mapsto>
         \<lparr>calories = JNumber 300, protein = JNumber 4, carbs = JNumber 40, fat = JNumber 14\<rparr>]\<rparr>"
  unfolding example_logged
  by (simp add: summary_eval example_today rows_between_def in_range_def text_le_def)
     (simp add: example_now_def text_eval)

lemma date_isoformat_cong:
  "year d = year t \<Longrightarrow> month d = month t \<Longrightarrow> day d = day t \<Longrightarrow>
   date_isoformat d = date_isoformat t"
  by (simp add: date_isoformat_def)

subsection \<open>C5: the summary persisted for today\<close>

lemma example_logged_twice:
  "fst (log_food example_loads (chain_replying example_str) ''comi 175g de bolo de banana''
     (Some ''y'') example_later
     (fst (log_food example_loads (chain_replying example_str) ''comi 175g de bolo de banana''
        (Some ''y'') example_now init_db)))
   = \<lparr>food_log = [\<lparr>calories = 525, protein = 7, carbs = 70, fat = 24.5,
                    food_item = ''bolo de banana'', quantity = 175, quantity_unit = ''g'',
                    row_id = 1, timestamp = ''2024-05-31T12:30:05''\<rparr>,
                  \<lparr>calories = 525, protein = 7, carbs = 70, fat = 24.5,
                    food_item = ''bolo de banana'', quantity = 175, quantity_unit = ''g'',
                    row_id = 2, timestamp = ''2024-05-31T19:45:10''\<rparr>],
       food_log_seq = 2, daily_summary = Map.empty,
       cache = [''bolo de banana'' \<mapsto>
         \<lparr>calories = JNumber 300, protein = JNumber 4, carbs = JNumber 40, fat = JNumber 14\<rparr>]\<rparr>"
  unfolding example_logged
  by (simp add: log_food_eval example_eval text_eval example_later_def)

lemma example_later_today:
  "today_range example_later = Some (''2024-05-31T00:00:00'', ''2024-06-01T00:00:00'')"
  by (simp add: range_eval text_eval example_later_def)

text \<open>
  With an entry in today's range the request writes the row of today, and the read
  returns the sums over the rows of \<^verbatim>\<open>food_log\<close> whose timestamp lies in the range, when
  the clock read for the key shows the date of the range.
\<close>

lemma summary_written_with_entries:
  assumes "today_range now = Some (s, e)"
    and "\<exists>r\<in>set (food_log st). text_le s (timestamp r) \<and> text_less (timestamp r) e"
    and "date_isoformat now_save = date_isoformat now"
    and "strptime_ymd date_str = Some d" and "date_isoformat d = date_isoformat now"
  shows "snd (get_summary_for_date date_str (fst (get_todays_summary now now_save st))) =
           Summary_for (date_isoformat now)
             (sum_list (map calories
                (filter (\<lambda>r. text_le s (timestamp r) \<and> text_less (timestamp r) e) (food_log st))),
              sum_list (map protein
                (filter (\<lambda>r. text_le s (timestamp r) \<and> text_less (timestamp r) e) (food_log st))),
              sum_list (map carbs
                (filter (\<lambda>r. text_le s (timestamp r) \<and> text_less (timestamp r) e) (food_log st))),
              sum_list (map fat
                (filter (\<lambda>r. text_le s (timestamp r) \<and> text_less (timestamp r) e) (food_log st))))"
proof -
  have rows: "rows_between st s e =
      filter (\<lambda>r. text_le s (timestamp r) \<and> text_less (timestamp r) e) (food_log st)"
    by (simp add: rows_between_def in_range_def[abs_def])
  from assms(2) have ne: "rows_between st s e \<noteq> []"
    unfolding rows by (auto simp: filter_empty_conv)
  show ?thesis
    unfolding rows[symmetric]
    by (simp add: get_todays_summary_rows[OF assms(1) ne] get_summary_for_date_def assms(3,4,5))
qed

text \<open>
  Claim C5: after the request for today's summary, the summary read for today holds the
  sums of the four fields over the entries whose timestamp falls on today. The code
  breaks it when the last entry of the day is removed. \<^verbatim>\<open>remove_last_entry\<close> prints
  \<^verbatim>\<open>Updating summary...\<close> and calls \<^verbatim>\<open>get_todays_summary\<close>; with an entry left the row of
  today is replaced by the new sums, and with no entry left nothing is written and the
  row persisted before stays.

  The first run: one entry of 525 kcal is saved, today's summary is requested, the entry
  is removed, and today's summary is requested again. The log is empty, the request
  prints that there are no entries, and the read for today still returns 525, 7, 70 and
  24.5. The second run: two such entries are saved and today's summary is requested
  (1050 kcal); after the removal of the last entry the read returns the sums over the
  entry left, and after the removal of that one too it returns them still.
\<close>

theorem stale_summary_after_last_removal:
  "snd (get_summary_for_date ''2024-05-31''
      (fst (get_todays_summary example_now example_now
        (fst (log_food example_loads (chain_replying example_str)
           ''comi 175g de bolo de banana'' (Some ''y'') example_now init_db)))))
     = Summary_for ''2024-05-31'' (525, 7, 70, 24.5)
   \<and> remove_last_entry example_later example_later example_later
        (fst (get_todays_summary example_now example_now
          (fst (log_food example_loads (chain_replying example_str)
             ''comi 175g de bolo de banana'' (Some ''y'') example_now init_db))))
     = (\<lparr>food_log = [], food_log_seq = 1,
         daily_summary = [''2024-05-31'' \<mapsto> (525, 7, 70, 24.5)],
         cache = [''bolo de banana'' \<mapsto>
           \<lparr>calories = JNumber 300, protein = JNumber 4, carbs = JNumber 40,
            fat = JNumber 14\<rparr>]\<rparr>,
        Inr (Entry_removed 1 ''bolo de banana'' 175 ''g'' No_entries_for_today))
   \<and> get_todays_summary example_later example_later
        \<lparr>food_log = [], food_log_seq = 1,
         daily_summary = [''2024-05-31'' \<mapsto> (525, 7, 70, 24.5)],
         cache = [''bolo de banana'' \<mapsto>
           \<lparr>calories = JNumber 300, protein = JNumber 4, carbs = JNumber 40,
            fat = JNumber 14\<rparr>]\<rparr>
     = (\<lparr>food_log = [], food_log_seq = 1,
         daily_summary = [''2024-05-31'' \<mapsto> (525, 7, 70, 24.5)],
         cache = [''bolo de banana'' \<mapsto>
           \<lparr>calories = JNumber 300, protein = JNumber 4, carbs = JNumber 40,
            fat = JNumber 14\<rparr>]\<rparr>,
        Inr No_entries_for_today)
   \<and> snd (get_summary_for_date ''2024-05-31''
        \<lparr>food_log = [], food_log_seq = 1,
         daily_summary = [''2024-05-31'' \<mapsto> (525, 7, 70, 24.5)],
         cache = [''bolo de banana'' \<mapsto>
           \<lparr>calories = JNumber 300, protein = JNumber 4, carbs = JNumber 40,
            fat = JNumber 14\<rparr>]\<rparr>)
     = Summary_for ''2024-05-31'' (525, 7, 70, 24.5)
   \<and> daily_summary
        (fst (get_todays_summary example_later example_later
          (fst (log_food example_loads (chain_replying example_str)
             ''comi 175g de bolo de banana'' (Some ''y'') example_later
             (fst (log_food example_loads (chain_replying example_str)
                ''comi 175g de bolo de banana'' (Some ''y'') example_now init_db))))))
     = [''2024-05-31'' \<mapsto> (1050, 14, 140, 49)]
   \<and> (let st1 = fst (remove_last_entry example_later example_later example_later
          (fst (get_todays_summary example_later example_later
            (fst (log_food example_loads (chain_replying example_str)
               ''comi 175g de bolo de banana'' (Some ''y'') example_later
               (fst (log_food example_loads (chain_replying example_str)
                  ''comi 175g de bolo de banana'' (Some ''y'') example_now init_db)))))));
            st2 = fst (remove_last_entry example_later example_later example_later st1)
        in map row_id (food_log st1) = [1]
         \<and> map calories (food_log st1) = [525]
         \<and> snd (get_summary_for_date ''2024-05-31'' st1)
             = Summary_for ''2024-05-31'' (525, 7, 70, 24.5)
         \<and> food_log st2 = []
         \<and> snd (get_summary_for_date ''2024-05-31'' st2)
             = Summary_for ''2024-05-31'' (525, 7, 70, 24.5))"
proof -
  let ?row = "\<lparr>calories = 525, protein = 7, carbs = 70, fat = 24.5,
                    food_item = ''bolo de banana'', quantity = 175, quantity_unit = ''g'',
                    row_id = 1, timestamp = ''2024-05-31T12:30:05''\<rparr> :: food_log_row"
  let ?row2 = "\<lparr>calories = 525, protein = 7, carbs = 70, fat = 24.5,
                    food_item = ''bolo de banana'', quantity = 175, quantity_unit = ''g'',
                    row_id = 2, timestamp = ''2024-05-31T19:45:10''\<rparr> :: food_log_row"
  let ?cache = "[''bolo de banana'' \<mapsto>
         \<lparr>calories = JNumber 300, protein = JNumber 4, carbs = JNumber 40, fat = JNumber 14\<rparr>]"
  let ?st = "\<lparr>food_log = [?row], food_log_seq = 1,
       daily_summary = [''2024-05-31'' \<mapsto> (525, 7, 70, 24.5)], cache = ?cache\<rparr>"
  let ?gone = "\<lparr>food_log = [], food_log_seq = 1,
       daily_summary = [''2024-05-31'' \<mapsto> (525, 7, 70, 24.5)], cache = ?cache\<rparr>"
  let ?two = "\<lparr>food_log = [?row, ?row2], food_log_seq = 2,
       daily_summary = [''2024-05-31'' \<mapsto> (1050, 14, 140, 49)], cache = ?cache\<rparr>"
  let ?one = "\<lparr>food_log = [?row], food_log_seq = 2,
       daily_summary = [''2024-05-31'' \<mapsto> (525, 7, 70, 24.5)], cache = ?cache\<rparr>"
  let ?none = "\<lparr>food_log = [], food_log_seq = 2,
       daily_summary = [''2024-05-31'' \<mapsto> (525, 7, 70, 24.5)], cache = ?cache\<rparr>"
  have read: "snd (get_summary_for_date ''2024-05-31'' ?st) =
      Summary_for ''2024-05-31'' (525, 7, 70, 24.5)"
    by (simp add: summary_eval days_in_month_def text_eval)
  have rem: "remove_last_entry example_later example_later example_later ?st =
      (?gone, Inr (Entry_removed 1 ''bolo de banana'' 175 ''g'' No_entries_for_today))"
    by (simp add: remove_last_entry_def example_later_today rows_between_def in_range_def
        text_le_def delete_by_id_def get_todays_summary_def select_sums_def sql_sum_def)
  have again: "get_todays_summary example_later example_later ?gone =
      (?gone, Inr No_entries_for_today)"
    by (simp add: example_later_today rows_between_def get_todays_summary_def select_sums_def
        sql_sum_def)
  have stale: "snd (get_summary_for_date ''2024-05-31'' ?gone) =
      Summary_for ''2024-05-31'' (525, 7, 70, 24.5)"
    by (simp add: summary_eval days_in_month_def text_eval)
  have two: "fst (get_todays_summary example_later example_later
          (fst (log_food example_loads (chain_replying example_str)
             ''comi 175g de bolo de banana'' (Some ''y'') example_later
             (fst (log_food example_loads (chain_replying example_str)
                ''comi 175g de bolo de banana'' (Some ''y'') example_now init_db))))) = ?two"
    unfolding example_logged_twice
    by (simp add: summary_eval example_later_today rows_between_def in_range_def text_le_def)
       (simp add: example_later_def text_eval)
  have rem2: "fst (remove_last_entry example_later example_later example_later ?two) = ?one"
    by (simp add: remove_last_entry_def example_later_today rows_between_def in_range_def
        text_le_def delete_by_id_def get_todays_summary_def select_sums_def sql_sum_def
        save_todays_summary_def)
       (simp add: example_later_def text_eval)
  have rem3: "fst (remove_last_entry example_later example_later example_later ?one) = ?none"
    by (simp add: remove_last_entry_def example_later_today rows_between_def in_range_def
        text_le_def delete_by_id_def get_todays_summary_def select_sums_def sql_sum_def)
  have read1: "snd (get_summary_for_date ''2024-05-31'' ?one) =
      Summary_for ''2024-05-31'' (525, 7, 70, 24.5)"
    by (simp add: summary_eval days_in_month_def text_eval)
  have read0: "snd (get_summary_for_date ''2024-05-31'' ?none) =
      Summary_for ''2024-05-31'' (525, 7, 70, 24.5)"
    by (simp add: summary_eval days_in_month_def text_eval)
  show ?thesis
    unfolding example_summarised two Let_def rem2 rem3
    using read rem again stale read1 read0 by simp
qed

subsection \<open>C7: no entries is not zero\<close>

text \<open>
  Claim C7. For a range that holds no row the four sums of the query are NULL, and for
  a range that holds a row they are numbers, also when every value summed is zero.
  \<^verbatim>\<open>get_todays_summary\<close>, in both files, prints that there are no entries in the first
  case and the totals in the second.
\<close>

theorem empty_day_distinction:
  assumes "today_range now = Some (today_start_ts, today_end_ts)"
  shows "(rows_between st start_ts end_ts = [] \<longrightarrow>
            select_sums st start_ts end_ts = (None, None, None, None))
       \<and> (rows_between st start_ts end_ts \<noteq> [] \<longrightarrow>
            (\<exists>c p cb f. select_sums st start_ts end_ts = (Some c, Some p, Some cb, Some f)))
       \<and> (rows_between st today_start_ts today_end_ts = [] \<longrightarrow>
            snd (get_todays_summary now now_save st) = Inr No_entries_for_today
          \<and> snd (main_get_todays_summary now st) = Inr No_entries_for_today)
       \<and> (rows_between st today_start_ts today_end_ts \<noteq> [] \<longrightarrow>
            (\<exists>c p cb f. snd (get_todays_summary now now_save st) = Inr (Totals c p cb f)
                      \<and> snd (main_get_todays_summary now st) = Inr (Totals c p cb f)
                      \<and> c = Some (sum_list (map calories (rows_between st today_start_ts today_end_ts)))))"
  using assms
  by (auto simp: select_sums_empty select_sums_rows get_todays_summary_empty
      get_todays_summary_rows main_get_todays_summary_empty main_get_todays_summary_rows)

theorem empty_day_distinction_witness:
  "today_range example_now = Some (''2024-05-31T00:00:00'', ''2024-06-01T00:00:00'')
   \<and> rows_between init_db ''2024-05-31T00:00:00'' ''2024-06-01T00:00:00'' = []
   \<and> snd (get_todays_summary example_now example_now init_db) = Inr No_entries_for_today
   \<and> snd (main_get_todays_summary example_now init_db) = Inr No_entries_for_today
   \<and> snd (get_todays_summary example_now example_now
        (init_db\<lparr>food_log :=
           [\<lparr>calories = 0, protein = 0, carbs = 0, fat = 0, food_item = ''agua'',
             quantity = 0, quantity_unit = ''ml'', row_id = 1,
             timestamp = ''2024-05-31T08:00:00''\<rparr>]\<rparr>))
       = Inr (Totals (Some 0) (Some 0) (Some 0) (Some 0))"
proof -
  let ?zero = "init_db\<lparr>food_log :=
           [\<lparr>calories = 0, protein = 0, carbs = 0, fat = 0, food_item = ''agua'',
             quantity = 0, quantity_unit = ''ml'', row_id = 1,
             timestamp = ''2024-05-31T08:00:00''\<rparr>]\<rparr>"
  have none: "rows_between init_db ''2024-05-31T00:00:00'' ''2024-06-01T00:00:00'' = []"
    by (simp add: rows_between_def init_db_def)
  have one: "rows_between ?zero ''2024-05-31T00:00:00'' ''2024-06-01T00:00:00'' =
      [\<lparr>calories = 0, protein = 0, carbs = 0, fat = 0, food_item = ''agua'',
             quantity = 0, quantity_unit = ''ml'', row_id = 1,
             timestamp = ''2024-05-31T08:00:00''\<rparr>]"
    by (simp add: rows_between_def in_range_def text_le_def init_db_def)
  from empty_day_distinction[OF example_today, of init_db "''2024-05-31T00:00:00''"
      "''2024-06-01T00:00:00''" example_now] none
  have a: "snd (get_todays_summary example_now example_now init_db) = Inr No_entries_for_today"
    "snd (main_get_todays_summary example_now init_db) = Inr No_entries_for_today"
    by blast+
  from empty_day_distinction[OF example_today, of ?zero "''2024-05-31T00:00:00''"
      "''2024-06-01T00:00:00''" example_now] one
  obtain c p cb f where
    "snd (get_todays_summary example_now example_now ?zero) = Inr (Totals c p cb f)"
    "c = Some (sum_list (map calories
        (rows_between ?zero ''2024-05-31T00:00:00'' ''2024-06-01T00:00:00'')))"
    by auto
  then have "\<exists>p cb f. snd (get_todays_summary example_now example_now ?zero) =
      Inr (Totals (Some 0) p cb f)"
    using one by auto
  moreover have "snd (get_todays_summary example_now example_now ?zero) =
      Inr (Totals (Some 0) (Some 0) (Some 0) (Some 0))"
    using example_today one
    by (simp add: get_todays_summary_def select_sums_def sql_sum_def save_todays_summary_def)
  ultimately show ?thesis using example_today none a by simp
qed

subsection \<open>C9: a date that does not parse\<close>

text \<open>
  Claim C9. When the text is no date of the form \<^verbatim>\<open>YYYY-MM-DD\<close>, both
  \<^verbatim>\<open>get_summary_for_date\<close> and \<^verbatim>\<open>get_meals_for_date\<close> report the invalid format whatever
  the tables hold, and the state is unchanged.
\<close>

theorem invalid_date_aborts:
  assumes "strptime_ymd date_str = None"
  shows "get_summary_for_date date_str st = (st, Invalid_date_format)
       \<and> get_meals_for_date date_str st = (st, Invalid_meals_date)"
  using assms by (simp add: get_summary_for_date_def get_meals_for_date_def)

theorem invalid_date_aborts_witness:
  "strptime_ymd ''31/05/2024'' = None
   \<and> get_summary_for_date ''31/05/2024''
        (fst (get_todays_summary example_now example_now
          (fst (log_food example_loads (chain_replying example_str)
             ''comi 175g de bolo de banana'' (Some ''y'') example_now init_db))))
      = (fst (get_todays_summary example_now example_now
          (fst (log_food example_loads (chain_replying example_str)
             ''comi 175g de bolo de banana'' (Some ''y'') example_now init_db))),
         Invalid_date_format)
   \<and> snd (get_meals_for_date ''2024-02-30'' init_db) = Invalid_meals_date"
proof -
  have p1: "strptime_ymd ''31/05/2024'' = None"
    by (simp add: summary_eval)
  have p2: "strptime_ymd ''2024-02-30'' = None"
    by (simp add: summary_eval days_in_month_def is_leap_def)
  from invalid_date_aborts[OF p1] invalid_date_aborts[OF p2, of init_db] p1
  show ?thesis by simp
qed

subsection \<open>C10: an empty day leaves the persisted summary alone\<close>

text \<open>
  Claim C10. When today's range holds no entry, \<^verbatim>\<open>get_todays_summary\<close> returns the state
  it was given: no row of \<^verbatim>\<open>daily_summary\<close> is written and none is deleted. So when
  \<^verbatim>\<open>remove_last_entry\<close> removes the only entry of the day, the table \<^verbatim>\<open>daily_summary\<close> is
  as before, and \<^verbatim>\<open>get_summary_for_date\<close> still returns for every date what it returned
  before the removal.
\<close>

theorem empty_day_keeps_stale_summary:
  "(\<forall>now now_save st s e.
      today_range now = Some (s, e) \<longrightarrow> rows_between st s e = [] \<longrightarrow>
      get_todays_summary now now_save st = (st, Inr No_entries_for_today))
   \<and> (\<forall>now now2 now3 st s e r date_str.
      today_range now = Some (s, e) \<longrightarrow> today_range now2 = Some (s, e) \<longrightarrow>
      last_by_id (rows_between st s e) = Some r \<longrightarrow>
      rows_between (delete_by_id (row_id r) st) s e = [] \<longrightarrow>
        snd (remove_last_entry now now2 now3 st) =
          Inr (Entry_removed (row_id r) (food_item r) (quantity r) (quantity_unit r)
                 No_entries_for_today)
      \<and> food_log (fst (remove_last_entry now now2 now3 st)) =
          filter (\<lambda>x. row_id x \<noteq> row_id r) (food_log st)
      \<and> daily_summary (fst (remove_last_entry now now2 now3 st)) = daily_summary st
      \<and> snd (get_summary_for_date date_str (fst (remove_last_entry now now2 now3 st))) =
          snd (get_summary_for_date date_str st))"
proof (intro conjI allI impI)
  fix now now_save :: datetime and st :: state and s e :: string
  assume "today_range now = Some (s, e)" "rows_between st s e = []"
  then show "get_todays_summary now now_save st = (st, Inr No_entries_for_today)"
    by (rule get_todays_summary_empty)
next
  fix now now2 now3 :: datetime and st :: state and s e date_str :: string
    and r :: food_log_row
  assume h: "today_range now = Some (s, e)" "today_range now2 = Some (s, e)"
    "last_by_id (rows_between st s e) = Some r"
    "rows_between (delete_by_id (row_id r) st) s e = []"
  note eq = remove_last_entry_last_of_day[OF h, of now3]
  show "snd (remove_last_entry now now2 now3 st) =
          Inr (Entry_removed (row_id r) (food_item r) (quantity r) (quantity_unit r)
                 No_entries_for_today)"
    by (simp add: eq)
  show "food_log (fst (remove_last_entry now now2 now3 st)) =
          filter (\<lambda>x. row_id x \<noteq> row_id r) (food_log st)"
    by (simp add: eq delete_by_id_def)
  show ds: "daily_summary (fst (remove_last_entry now now2 now3 st)) = daily_summary st"
    by (simp add: eq delete_by_id_def)
  show "snd (get_summary_for_date date_str (fst (remove_last_entry now now2 now3 st))) =
          snd (get_summary_for_date date_str st)"
    using ds by (rule get_summary_for_date_reads)
qed

theorem empty_day_keeps_stale_summary_witness:
  "food_log (fst (remove_last_entry example_now example_now example_now
      (fst (get_todays_summary example_now example_now
         (fst (log_food example_loads (chain_replying example_str)
            ''comi 175g de bolo de banana'' (Some ''y'') example_now init_db)))))) = []
   \<and> snd (get_summary_for_date ''2024-05-31''
      (fst (remove_last_entry example_now example_now example_now
        (fst (get_todays_summary example_now example_now
           (fst (log_food example_loads (chain_replying example_str)
              ''comi 175g de bolo de banana'' (Some ''y'') example_now init_db)))))))
     = Summary_for ''2024-05-31'' (525, 7, 70, 24.5)"
proof -
  let ?row = "\<lparr>calories = 525, protein = 7, carbs = 70, fat = 24.5,
                    food_item = ''bolo de banana'', quantity = 175, quantity_unit = ''g'',
                    row_id = 1, timestamp = ''2024-05-31T12:30:05''\<rparr> :: food_log_row"
  let ?st = "\<lparr>food_log = [?row], food_log_seq = 1,
       daily_summary = [''2024-05-31'' \<mapsto> (525, 7, 70, 24.5)],
       cache = [''bolo de banana'' \<mapsto>
         \<lparr>calories = JNumber 300, protein = JNumber 4, carbs = JNumber 40, fat = JNumber 14\<rparr>]\<rparr>"
  have last: "last_by_id (rows_between ?st ''2024-05-31T00:00:00'' ''2024-06-01T00:00:00'') = Some ?row"
    by (simp add: rows_between_def in_range_def text_le_def)
  have rest: "rows_between (delete_by_id (row_id ?row) ?st)
      ''2024-05-31T00:00:00'' ''2024-06-01T00:00:00'' = []"
    by (simp add: rows_between_def delete_by_id_def)
  note stale = empty_day_keeps_stale_summary[THEN conjunct2, rule_format,
      OF example_today example_today last rest, of example_now "''2024-05-31''"]
  have before: "snd (get_summary_for_date ''2024-05-31'' ?st) =
      Summary_for ''2024-05-31'' (525, 7, 70, 24.5)"
    by (simp add: summary_eval days_in_month_def text_eval)
  from stale before show ?thesis unfolding example_summarised by simp
qed

subsection \<open>C6: saving an entry and removing the last one\<close>







lemma rows_between_food_log:
  "food_log st1 = food_log st2 \<Longrightarrow> rows_between st1 s e = rows_between st2 s e"
  by (simp add: rows_between_def)












subsection \<open>C8: the reply of the language model\<close>

text \<open>
  \<^verbatim>\<open>split\<close> never returns the empty list, and a text that contains the separator has at
  least two pieces: the index 1 and the head in \<open>clean_response\<close> exist.
\<close>

lemma split_scan_nonempty: "split_scan sep k acc xs \<noteq> []"
  by (induction xs arbitrary: k acc) auto






lemma str_contains_split:
  assumes "sep \<noteq> []" and "str_contains sep xs"
  shows "2 \<le> length (split_scan sep 0 acc xs)"
  using assms(2)
proof (induction xs arbitrary: acc)
  case Nil
  with assms(1) show ?case by simp
next
  case (Cons c xs)
  show ?case
  proof (cases "take (length sep) (c # xs) = sep")
    case True
    have "split_scan sep (length sep - 1) [] xs \<noteq> []" by (rule split_scan_nonempty)
    then have "1 \<le> length (split_scan sep (length sep - 1) [] xs)"
      by (cases "split_scan sep (length sep - 1) [] xs") auto
    with True show ?thesis by simp
  next
    case False
    with Cons.prems have "str_contains sep xs" by simp
    from Cons.IH[OF this, of "c # acc"] False show ?thesis by simp
  qed
qed





lemma split_scan_no_match:
  "take (length sep) (c # xs) \<noteq> sep \<Longrightarrow>
   split_scan sep 0 acc (c # xs) = split_scan sep 0 (c # acc) xs"
  by simp



lemma clean_response_unmarked:
  "\<not> str_contains ''```json'' response_str \<Longrightarrow> clean_response response_str = response_str"
  by (simp add: clean_response_def)













lemma scale_and_confirm_outcome:
  assumes "scale_and_confirm hit raw fi v qu confirm_input now st = (st', out)"
  shows "((\<exists>r. out = Entry_saved r \<or> out = Entry_discarded r) \<or> out = Could_not_process EOFError)
           = (\<exists>q n. as_number v = Some q \<and> as_numbers raw = Some n)"
    and "(out = Could_not_process TypeError) = (\<not> (\<exists>q n. as_number v = Some q \<and> as_numbers raw = Some n))"
    and "out = Could_not_process e \<Longrightarrow> st' = st \<and> (e = TypeError \<or> e = EOFError)"
    and "(out = Could_not_process EOFError)
           = ((\<exists>q n. as_number v = Some q \<and> as_numbers raw = Some n) \<and> confirm_input = None)"
  using assms
  by (auto simp: scale_and_confirm_def confirm_and_save_def Let_def
      split: option.splits if_splits)





end
